theory Spec2Isabelle
  imports Complex_Main "HOL-Library.AList"
begin

section \<open>Python values and exceptions\<close>

text \<open>
  The client of \<^verbatim>\<open>custom_components/dominion_energy/api.py\<close> works on whatever
  \<^verbatim>\<open>response.json()\<close> returns, so the model carries JSON values as Python sees them:
  \<open>JNull\<close> is \<^verbatim>\<open>None\<close>, \<open>JObj\<close> is a \<^verbatim>\<open>dict\<close> (an association list in
  insertion order), \<open>JArr\<close> a \<^verbatim>\<open>list\<close>. A number is the rational it denotes;
  NaN and the infinities are not modelled. A \<open>char\<close> of a string is a code point
  below 256.
\<close>

datatype json =
    JNull
  | JBool bool
  | JNum rat
  | JStr string
  | JArr "json list"
  | JObj "(string \<times> json) list"

text \<open>
  The exceptions of the module and the built-in ones its statements can raise. The
  messages are left out. \<open>DominionEnergyAuthError\<close> is a subclass of
  \<open>DominionEnergyApiError\<close>; \<open>is_api_error\<close> is
  \<^verbatim>\<open>isinstance(e, DominionEnergyApiError)\<close>, what an
  \<^verbatim>\<open>except DominionEnergyApiError\<close> clause tests.
\<close>

datatype exn =
    DominionEnergyApiError
  | DominionEnergyAuthError
  | ValueError
  | TypeError
  | AttributeError
  | IndexError
  | KeyError
  | ZeroDivisionError
  | OverflowError

fun is_api_error :: "exn \<Rightarrow> bool" where
  "is_api_error DominionEnergyApiError = True"
| "is_api_error DominionEnergyAuthError = True"
| "is_api_error _ = False"

definition bindE :: "exn + 'a \<Rightarrow> ('a \<Rightarrow> exn + 'b) \<Rightarrow> exn + 'b" where
  "bindE m f = (case m of Inl e \<Rightarrow> Inl e | Inr x \<Rightarrow> f x)"

text \<open>Truth value of a Python object, as \<^verbatim>\<open>if x:\<close> tests it.\<close>

fun truthy :: "json \<Rightarrow> bool" where
  "truthy JNull = False"
| "truthy (JBool b) = b"
| "truthy (JNum r) = (r \<noteq> 0)"
| "truthy (JStr s) = (s \<noteq> [])"
| "truthy (JArr xs) = (xs \<noteq> [])"
| "truthy (JObj kvs) = (kvs \<noteq> [])"

text \<open>\<^verbatim>\<open>d.get(k, default)\<close> on a dict, and on any object: only a dict has \<^verbatim>\<open>get\<close>.\<close>

definition dget :: "(string \<times> json) list \<Rightarrow> string \<Rightarrow> json \<Rightarrow> json" where
  "dget kvs k dflt = (case map_of kvs k of Some v \<Rightarrow> v | None \<Rightarrow> dflt)"

definition py_get :: "json \<Rightarrow> string \<Rightarrow> json \<Rightarrow> exn + json" where
  "py_get x k dflt = (case x of JObj kvs \<Rightarrow> Inr (dget kvs k dflt) | _ \<Rightarrow> Inl AttributeError)"

text \<open>Numbers in arithmetic and comparisons: \<^verbatim>\<open>bool\<close> is a subclass of \<^verbatim>\<open>int\<close>.\<close>

fun num_of :: "json \<Rightarrow> rat option" where
  "num_of (JNum r) = Some r"
| "num_of (JBool b) = Some (if b then 1 else 0)"
| "num_of _ = None"

definition py_gt0 :: "json \<Rightarrow> exn + bool" where
  "py_gt0 x = (case num_of x of Some r \<Rightarrow> Inr (0 < r) | None \<Rightarrow> Inl TypeError)"

text \<open>
  Float arithmetic is a parameter of the model. \<open>fdiv x y\<close> is what Python's
  \<^verbatim>\<open>x / y\<close> gives for a divisor that is not zero: the quotient rounded to a
  float, or \<open>None\<close> when the interpreter raises \<open>OverflowError\<close> (the true
  division of integers too large for a float). \<open>fround x n\<close> is what
  \<^verbatim>\<open>round(x, n)\<close> gives for the float \<open>x\<close>. Both are functions of the values of
  their operands. Every general statement below holds for all such functions, so for
  the interpreter's. A quotient of floats that overflows to an infinity is outside the
  model, as the infinities are.
\<close>

record float_arith =
  fdiv :: "rat \<Rightarrow> rat \<Rightarrow> rat option"
  fround :: "rat \<Rightarrow> nat \<Rightarrow> rat"

definition py_truediv :: "float_arith \<Rightarrow> json \<Rightarrow> json \<Rightarrow> exn + rat" where
  "py_truediv fl a b =
     (case num_of a of
        None \<Rightarrow> Inl TypeError
      | Some x \<Rightarrow>
          (case num_of b of
             None \<Rightarrow> Inl TypeError
           | Some y \<Rightarrow>
               if y = 0 then Inl ZeroDivisionError
               else (case fdiv fl x y of
                       None \<Rightarrow> Inl OverflowError
                     | Some q \<Rightarrow> Inr q)))"

text \<open>
  \<^verbatim>\<open>int(x)\<close>. A number is truncated towards zero. A string is stripped of
  white space and read as an optional sign and decimal digits, single underscores
  allowed between digits; anything else is a \<open>ValueError\<close>. Lists, dicts and
  \<^verbatim>\<open>None\<close> are a \<open>TypeError\<close>. Among the code points below 256 the white space
  of Python is 9 to 13, 28 to 32, 133 (U+0085) and 160 (U+00A0), and the decimal digits
  are the ASCII ones. The limit that newer interpreters put on the number of digits is
  not modelled.
\<close>

definition is_space :: "char \<Rightarrow> bool" where
  "is_space c = (c \<in> set [CHR '' '', CHR 0x09, CHR 0x0A, CHR 0x0B, CHR 0x0C, CHR 0x0D,
                            CHR 0x1C, CHR 0x1D, CHR 0x1E, CHR 0x1F, CHR 0x85, CHR 0xA0])"

definition is_digit :: "char \<Rightarrow> bool" where
  "is_digit c = (48 \<le> (of_char c :: nat) \<and> (of_char c :: nat) \<le> 57)"

definition digit_val :: "char \<Rightarrow> int" where
  "digit_val c = int (of_char c :: nat) - 48"

definition strip :: "string \<Rightarrow> string" where
  "strip s = rev (dropWhile is_space (rev (dropWhile is_space s)))"

fun digits_tail :: "int \<Rightarrow> string \<Rightarrow> int option" where
  "digits_tail acc [] = Some acc"
| "digits_tail acc [c] = (if is_digit c then Some (10 * acc + digit_val c) else None)"
| "digits_tail acc (c # d # cs) =
     (if is_digit c then digits_tail (10 * acc + digit_val c) (d # cs)
      else if c = CHR ''_'' \<and> is_digit d then digits_tail (10 * acc + digit_val d) cs
      else None)"

definition digits :: "string \<Rightarrow> int option" where
  "digits s = (case s of [] \<Rightarrow> None
               | c # cs \<Rightarrow> if is_digit c then digits_tail (digit_val c) cs else None)"

definition int_of_str :: "string \<Rightarrow> int option" where
  "int_of_str s =
     (case strip s of
        [] \<Rightarrow> None
      | c # cs \<Rightarrow>
          if c = CHR ''-'' then map_option uminus (digits cs)
          else if c = CHR ''+'' then digits cs
          else digits (c # cs))"

definition trunc :: "rat \<Rightarrow> int" where
  "trunc r = (if 0 \<le> r then \<lfloor>r\<rfloor> else \<lceil>r\<rceil>)"

fun py_int :: "json \<Rightarrow> exn + int" where
  "py_int (JNum r) = Inr (trunc r)"
| "py_int (JBool b) = Inr (if b then 1 else 0)"
| "py_int (JStr s) = (case int_of_str s of Some n \<Rightarrow> Inr n | None \<Rightarrow> Inl ValueError)"
| "py_int _ = Inl TypeError"

text \<open>\<^verbatim>\<open>x[0]\<close>.\<close>

fun py_index0 :: "json \<Rightarrow> exn + json" where
  "py_index0 (JArr xs) = (case xs of [] \<Rightarrow> Inl IndexError | x # _ \<Rightarrow> Inr x)"
| "py_index0 (JStr s) = (case s of [] \<Rightarrow> Inl IndexError | c # _ \<Rightarrow> Inr (JStr [c]))"
| "py_index0 (JObj kvs) = Inl KeyError"
| "py_index0 _ = Inl TypeError"

text \<open>
  \<^verbatim>\<open>d.update(p)\<close>: each pair of \<open>p\<close> in turn replaces the value of a key already in
  \<open>d\<close>, in place, or is appended.
\<close>

definition dict_update :: "('k \<times> 'v) list \<Rightarrow> ('k \<times> 'v) list \<Rightarrow> ('k \<times> 'v) list" where
  "dict_update d p = fold (\<lambda>(k, v). AList.update k v) p d"

section \<open>Constants (const.py)\<close>

definition LOGIN_URL :: string where
  "LOGIN_URL = ''https://login.dominionenergy.com/CommonLogin''"

definition API_BASE_URL :: string where
  "API_BASE_URL = ''https://prodsvc-dominioncip.smartcmobile.com/Service/api/1''"

definition BILL_FORECAST_ENDPOINT :: string where
  "BILL_FORECAST_ENDPOINT = ''/bill/billForecast''"

definition USAGE_HISTORY_ENDPOINT :: string where
  "USAGE_HISTORY_ENDPOINT = ''/usage/usageHistory''"

definition BILL_HISTORY_ENDPOINT :: string where
  "BILL_HISTORY_ENDPOINT = ''/bill/billHistory''"

definition ACTION_CODE :: string where
  "ACTION_CODE = ''4''"

definition USER_AGENT :: string where
  "USER_AGENT = ''Mozilla/5.0 (Windows NT 10.0; Win64; x64) AppleWebKit/537.36 (KHTML, like Gecko) Chrome/120.0.0.0 Safari/537.36''"

definition DEFAULT_HEADERS :: "(string \<times> json) list" where
  "DEFAULT_HEADERS =
     [(''uid'', JStr ''1''), (''pt'', JStr ''1''), (''channel'', JStr ''WEB''),
      (''Origin'', JStr ''https://myaccount.dominionenergy.com''),
      (''Accept'', JStr ''application/json''), (''User-Agent'', JStr USER_AGENT)]"

section \<open>The HTTP session\<close>

text \<open>
  A request as the client hands it to aiohttp, and what comes back. The session is a
  function from the request to its outcome: \<open>ClientError\<close> is an
  \<^verbatim>\<open>aiohttp.ClientError\<close> raised by the call; a response has a status and a payload,
  and reading the payload with \<^verbatim>\<open>response.json()\<close> returns the decoded value, raises
  \<^verbatim>\<open>ContentTypeError\<close> (an \<^verbatim>\<open>aiohttp.ClientError\<close>) or raises
  \<^verbatim>\<open>json.JSONDecodeError\<close> (a \<open>ValueError\<close>). Header values are Python
  values, because the client stores in \<^verbatim>\<open>_token\<close> whatever the token endpoint sent.
\<close>

datatype body = NoBody | FormData "(string \<times> string) list" | JsonData "(string \<times> string) list"

record request =
  req_method :: string
  req_url :: string
  req_params :: "(string \<times> string) list"
  req_headers :: "(string \<times> json) list"
  req_body :: body

datatype payload = Json json | ContentTypeError | JSONDecodeError

datatype outcome = ClientError | Response int payload

type_synonym session = "request \<Rightarrow> outcome"

section \<open>The client (class DominionEnergyApi)\<close>

text \<open>
  The fields of the client that the operations read or write. \<open>token\<close> is
  \<^verbatim>\<open>self._token\<close>, \<open>JNull\<close> when it is \<^verbatim>\<open>None\<close>. The aiohttp session handle and
  its ownership flag are represented by the \<open>session\<close> function passed to each
  operation.
\<close>

record client =
  username :: string
  password :: string
  account_number :: string
  token :: json

definition set_token :: "string \<Rightarrow> client \<Rightarrow> client" where
  "set_token t c =
     (let t' = (if take 7 t = ''Bearer '' then t else ''Bearer '' @ t)
      in c\<lparr>token := JStr t'\<rparr>)"

definition get_headers :: "client \<Rightarrow> (string \<times> json) list" where
  "get_headers c =
     (let headers = DEFAULT_HEADERS
      in if truthy (token c) then AList.update ''Authorization'' (token c) headers
         else headers)"

text \<open>Lines 196 to 201 of \<^verbatim>\<open>_api_request\<close>: the query that is sent.\<close>

definition api_request_params ::
  "client \<Rightarrow> (string \<times> string) list option \<Rightarrow> (string \<times> string) list" where
  "api_request_params c params =
     (let default_params =
            [(''accountNumber'', account_number c), (''actionCode'', ACTION_CODE)]
      in case params of
           None \<Rightarrow> default_params
         | Some p \<Rightarrow> if p \<noteq> [] then dict_update default_params p else default_params)"

definition api_request_of ::
  "client \<Rightarrow> string \<Rightarrow> (string \<times> string) list option \<Rightarrow> request" where
  "api_request_of c endpoint params =
     \<lparr>req_method = ''GET'', req_url = API_BASE_URL @ endpoint,
      req_params = api_request_params c params, req_headers = get_headers c,
      req_body = NoBody\<rparr>"

text \<open>The check of the embedded status object, lines 217 to 224.\<close>

definition check_status :: "json \<Rightarrow> exn + json" where
  "check_status data =
     bindE (py_get data ''status'' (JObj [])) (\<lambda>status.
     bindE (py_get status ''code'' JNull) (\<lambda>status_code.
       if truthy status_code then
         bindE (py_int status_code) (\<lambda>n.
           if n \<noteq> 200 then Inl DominionEnergyApiError else Inr data)
       else Inr data))"

text \<open>\<^verbatim>\<open>_api_request\<close>.\<close>

definition api_request ::
  "session \<Rightarrow> client \<Rightarrow> string \<Rightarrow> (string \<times> string) list option \<Rightarrow> exn + json" where
  "api_request session c endpoint params =
     (if \<not> truthy (token c) then Inl DominionEnergyApiError
      else
        case session (api_request_of c endpoint params) of
          ClientError \<Rightarrow> Inl DominionEnergyApiError
        | Response status p \<Rightarrow>
            if status = 401 then Inl DominionEnergyAuthError
            else if status \<noteq> 200 then Inl DominionEnergyApiError
            else
              (case p of
                 ContentTypeError \<Rightarrow> Inl DominionEnergyApiError
               | JSONDecodeError \<Rightarrow> Inl ValueError
               | Json data \<Rightarrow> check_status data))"

definition get_bill_forecast :: "session \<Rightarrow> client \<Rightarrow> exn + json" where
  "get_bill_forecast session c = api_request session c BILL_FORECAST_ENDPOINT None"

definition get_usage_history ::
  "session \<Rightarrow> client \<Rightarrow> string option \<Rightarrow> string option \<Rightarrow> exn + json" where
  "get_usage_history session c start_date end_date =
     (let params = [];
          params = (case start_date of
                      Some s \<Rightarrow> if s \<noteq> [] then AList.update ''startDate'' s params else params
                    | None \<Rightarrow> params);
          params = (case end_date of
                      Some s \<Rightarrow> if s \<noteq> [] then AList.update ''endDate'' s params else params
                    | None \<Rightarrow> params)
      in api_request session c USAGE_HISTORY_ENDPOINT (Some params))"

definition get_bill_history :: "session \<Rightarrow> client \<Rightarrow> exn + json" where
  "get_bill_history session c = api_request session c BILL_HISTORY_ENDPOINT None"

section \<open>Dates\<close>

text \<open>
  A \<^verbatim>\<open>datetime\<close>: the day as \<^verbatim>\<open>date.toordinal()\<close> counts it, the microseconds
  since midnight, and the UTC offset when the object is zone-aware.
  \<^verbatim>\<open>datetime.fromisoformat\<close> belongs to the Python library and its grammar depends on
  the interpreter's version, so the operations take it as a parameter: \<open>None\<close> is
  its \<open>ValueError\<close>. \<open>now\<close> is the result of \<^verbatim>\<open>datetime.now()\<close>, a naive
  datetime.
\<close>

record datetime =
  ordinal :: int
  day_us :: int
  tzinfo :: "int option"

definition DAY_US :: int where
  "DAY_US = 86400000000"

text \<open>\<^verbatim>\<open>(a - b).days\<close> for naive \<open>a\<close> and \<open>b\<close>: the floor of the difference in days.\<close>

definition timedelta_days :: "datetime \<Rightarrow> datetime \<Rightarrow> int" where
  "timedelta_days a b = ((ordinal a - ordinal b) * DAY_US + (day_us a - day_us b)) div DAY_US"

text \<open>\<^verbatim>\<open>s.replace("Z", "+00:00")\<close>.\<close>

definition replace_Z :: "string \<Rightarrow> string" where
  "replace_Z s = concat (map (\<lambda>c. if c = CHR ''Z'' then ''+00:00'' else [c]) s)"

section \<open>The reading (class DominionEnergyData)\<close>

record DominionEnergyData =
  grid_consumption :: json
  grid_return :: json
  monthly_usage :: json
  current_bill :: json
  billing_period_start :: "datetime option"
  billing_period_end :: "datetime option"
  current_rate :: json
  daily_cost :: json
  daily_usage :: json
  daily_return :: json

definition new_data :: DominionEnergyData where
  "new_data =
     \<lparr>grid_consumption = JNull, grid_return = JNull, monthly_usage = JNull,
      current_bill = JNull, billing_period_start = None, billing_period_end = None,
      current_rate = JNull, daily_cost = JNull, daily_usage = JNull, daily_return = JNull\<rparr>"

section \<open>get_all_data\<close>

text \<open>
  Lines 275 to 289: a truthy date field is parsed; a \<open>ValueError\<close> of the parser is
  logged and leaves the field as it was (\<open>old\<close>); a truthy value that is not a string
  has no \<^verbatim>\<open>replace\<close>.
\<close>

definition parse_billing_date ::
  "(string \<Rightarrow> datetime option) \<Rightarrow> json \<Rightarrow> datetime option \<Rightarrow> exn + datetime option" where
  "parse_billing_date fromisoformat v old =
     (if truthy v then
        (case v of
           JStr s \<Rightarrow> Inr (case fromisoformat (replace_Z s) of Some d \<Rightarrow> Some d | None \<Rightarrow> old)
         | _ \<Rightarrow> Inl AttributeError)
      else Inr old)"

text \<open>
  Lines 292 and 293, and again lines 336 and 337:
  \<^verbatim>\<open>if amount and usage and usage > 0: rate = round(amount / usage, 4)\<close>.
  \<open>None\<close> means that nothing is assigned.
\<close>

definition rate_of :: "float_arith \<Rightarrow> json \<Rightarrow> json \<Rightarrow> exn + json option" where
  "rate_of fl amount usage =
     (if truthy amount \<and> truthy usage then
        bindE (py_gt0 usage) (\<lambda>pos.
          if pos then
            bindE (py_truediv fl amount usage) (\<lambda>q. Inr (Some (JNum (fround fl q 4))))
          else Inr None)
      else Inr None)"

text \<open>Lines 296 to 299. A datetime object is always truthy.\<close>

definition daily_cost_of ::
  "float_arith \<Rightarrow> datetime \<Rightarrow> datetime option \<Rightarrow> json \<Rightarrow> exn + json option" where
  "daily_cost_of fl now start bill =
     (case start of
        None \<Rightarrow> Inr None
      | Some st \<Rightarrow>
          if truthy bill then
            (let days_elapsed = timedelta_days now (st\<lparr>tzinfo := None\<rparr>)
             in if 0 < days_elapsed then
                  bindE (py_truediv fl bill (JNum (of_int days_elapsed)))
                    (\<lambda>q. Inr (Some (JNum (fround fl q 2))))
                else Inr None)
          else Inr None)"

text \<open>Lines 260 to 304: what the first \<^verbatim>\<open>try\<close> block does with the forecast.\<close>

definition forecast_fields ::
  "float_arith \<Rightarrow> (string \<Rightarrow> datetime option) \<Rightarrow> datetime \<Rightarrow> json \<Rightarrow> DominionEnergyData
     \<Rightarrow> exn + DominionEnergyData" where
  "forecast_fields fl fromisoformat now bill_forecast data0 =
     bindE (py_get bill_forecast ''data'' (JObj [])) (\<lambda>forecast_data.
       case forecast_data of
         JObj fd \<Rightarrow>
           (let usage = dget fd ''currentUsageKwh'' JNull;
                bill = dget fd ''currentBillAmount'' JNull;
                bill = (if bill = JNull then dget fd ''projectedBillAmount'' JNull else bill);
                data = data0\<lparr>monthly_usage := usage, grid_consumption := usage,
                              current_bill := bill\<rparr>;
                billing_start = dget fd ''billingPeriodStartDate'' JNull;
                billing_end = dget fd ''billingPeriodEndDate'' JNull
            in bindE (parse_billing_date fromisoformat billing_start
                        (billing_period_start data0)) (\<lambda>pstart.
               bindE (parse_billing_date fromisoformat billing_end
                        (billing_period_end data0)) (\<lambda>pend.
               bindE (rate_of fl bill usage) (\<lambda>rate.
               bindE (daily_cost_of fl now pstart bill) (\<lambda>cost.
                 let gr = dget fd ''netMeteringExportKwh'' (JNum 0);
                     gr = (if gr = JNull then dget fd ''gridReturnKwh'' (JNum 0) else gr)
                 in Inr (data\<lparr>billing_period_start := pstart, billing_period_end := pend,
                               current_rate := (case rate of Some r \<Rightarrow> r
                                                | None \<Rightarrow> current_rate data0),
                               daily_cost := (case cost of Some v \<Rightarrow> v
                                              | None \<Rightarrow> daily_cost data0),
                               grid_return := gr\<rparr>))))))
       | _ \<Rightarrow> Inl AttributeError)"

text \<open>Lines 312 to 320.\<close>

definition usage_fields :: "json \<Rightarrow> DominionEnergyData \<Rightarrow> exn + DominionEnergyData" where
  "usage_fields usage_history data =
     bindE (py_get usage_history ''data'' (JObj [])) (\<lambda>history_data.
       case history_data of
         JObj hdata \<Rightarrow>
           (let du = dget hdata ''dailyUsage'' (JArr []);
                dr = dget hdata ''dailyReturn'' (JArr [])
            in Inr (data\<lparr>daily_usage := (if truthy du then du else daily_usage data),
                          daily_return := (if truthy dr then dr else daily_return data)\<rparr>))
       | _ \<Rightarrow> Inl AttributeError)"

text \<open>Lines 328 to 337.\<close>

definition bill_fields ::
  "float_arith \<Rightarrow> json \<Rightarrow> DominionEnergyData \<Rightarrow> exn + DominionEnergyData" where
  "bill_fields fl bill_history data =
     bindE (py_get bill_history ''data'' (JObj [])) (\<lambda>d.
     bindE (py_get d ''bills'' (JArr [])) (\<lambda>bills.
       if truthy bills then
         bindE (py_index0 bills) (\<lambda>latest_bill.
           if truthy latest_bill \<and> \<not> truthy (current_rate data) then
             bindE (py_get latest_bill ''totalAmount'' JNull) (\<lambda>bill_amount.
             bindE (py_get latest_bill ''totalUsageKwh'' JNull) (\<lambda>bill_usage.
             bindE (rate_of fl bill_amount bill_usage) (\<lambda>rate.
               Inr (case rate of Some r \<Rightarrow> data\<lparr>current_rate := r\<rparr> | None \<Rightarrow> data))))
           else Inr data)
       else Inr data))"

text \<open>
  \<^verbatim>\<open>try: ... except DominionEnergyApiError as err: log\<close>. The handler catches the
  class and its subclasses and goes on with the reading as it was; anything else
  propagates. In each of the three blocks only the fetch, the first statement, can raise
  a \<open>DominionEnergyApiError\<close>, so the reading the handler leaves is the one the block
  started with.
\<close>

definition except_api :: "exn + 'a \<Rightarrow> 'a \<Rightarrow> exn + 'a" where
  "except_api m d = (case m of Inl e \<Rightarrow> if is_api_error e then Inr d else Inl e | Inr x \<Rightarrow> Inr x)"

definition forecast_block ::
  "float_arith \<Rightarrow> (string \<Rightarrow> datetime option) \<Rightarrow> datetime \<Rightarrow> session \<Rightarrow> client
     \<Rightarrow> DominionEnergyData \<Rightarrow> exn + DominionEnergyData" where
  "forecast_block fl fromisoformat now session c data =
     except_api (bindE (get_bill_forecast session c)
                   (\<lambda>bill_forecast. forecast_fields fl fromisoformat now bill_forecast data))
       data"

definition usage_block :: "session \<Rightarrow> client \<Rightarrow> DominionEnergyData \<Rightarrow> exn + DominionEnergyData" where
  "usage_block session c data =
     except_api (bindE (get_usage_history session c None None)
                   (\<lambda>usage_history. usage_fields usage_history data)) data"

definition bill_block ::
  "float_arith \<Rightarrow> session \<Rightarrow> client \<Rightarrow> DominionEnergyData \<Rightarrow> exn + DominionEnergyData" where
  "bill_block fl session c data =
     except_api (bindE (get_bill_history session c)
                   (\<lambda>bill_history. bill_fields fl bill_history data)) data"

definition get_all_data ::
  "float_arith \<Rightarrow> (string \<Rightarrow> datetime option) \<Rightarrow> datetime \<Rightarrow> session \<Rightarrow> client
     \<Rightarrow> exn + DominionEnergyData" where
  "get_all_data fl fromisoformat now session c =
     bindE (forecast_block fl fromisoformat now session c new_data) (\<lambda>data.
     bindE (usage_block session c data) (\<lambda>data.
     bill_block fl session c data))"

section \<open>authenticate and validate_credentials\<close>

definition login_page_request :: request where
  "login_page_request =
     \<lparr>req_method = ''GET'', req_url = LOGIN_URL,
      req_params = [(''SelectedAppName'', ''Electric'')], req_headers = [],
      req_body = NoBody\<rparr>"

definition token_request :: "client \<Rightarrow> request" where
  "token_request c =
     \<lparr>req_method = ''POST'', req_url = ''https://login.dominionenergy.com/oauth2/token'',
      req_params = [],
      req_headers = [(''Content-Type'', JStr ''application/x-www-form-urlencoded''),
                     (''Accept'', JStr ''application/json''),
                     (''User-Agent'', dget DEFAULT_HEADERS ''User-Agent'' JNull)],
      req_body = FormData [(''username'', username c), (''password'', password c),
                           (''client_id'', ''CustomerPortal''), (''grant_type'', ''password''),
                           (''scope'', ''openid profile email'')]\<rparr>"

definition authn_request :: "client \<Rightarrow> request" where
  "authn_request c =
     \<lparr>req_method = ''POST'', req_url = ''https://login.dominionenergy.com/api/v1/authn'',
      req_params = [],
      req_headers = [(''Content-Type'', JStr ''application/json''),
                     (''Accept'', JStr ''application/json'')],
      req_body = JsonData [(''Email'', username c), (''Password'', password c)]\<rparr>"

text \<open>
  \<^verbatim>\<open>f"Bearer {session_token}"\<close>. A string is formatted as itself; the text Python
  gives any other value is the parameter \<open>str_of\<close>.
\<close>

definition bearer :: "(json \<Rightarrow> string) \<Rightarrow> json \<Rightarrow> json" where
  "bearer str_of v = JStr (''Bearer '' @ (case v of JStr s \<Rightarrow> s | _ \<Rightarrow> str_of v))"

text \<open>
  Lines 152 to 168, the session-token login and the final \<^verbatim>\<open>raise\<close>. Every operation
  that writes \<^verbatim>\<open>self._token\<close> returns the client next to its result, also when it raises.
\<close>

definition session_token_login ::
  "(json \<Rightarrow> string) \<Rightarrow> session \<Rightarrow> client \<Rightarrow> (exn + bool) \<times> client" where
  "session_token_login str_of session c =
     (case session (authn_request c) of
        ClientError \<Rightarrow> (Inl DominionEnergyAuthError, c)
      | Response status p \<Rightarrow>
          if status = 200 then
            (case p of
               ContentTypeError \<Rightarrow> (Inl DominionEnergyAuthError, c)
             | JSONDecodeError \<Rightarrow> (Inl ValueError, c)
             | Json auth_response \<Rightarrow>
                 (case py_get auth_response ''sessionToken'' JNull of
                    Inl e \<Rightarrow> (Inl e, c)
                  | Inr session_token \<Rightarrow>
                      if truthy session_token
                      then (Inr True, c\<lparr>token := bearer str_of session_token\<rparr>)
                      else (Inl DominionEnergyAuthError, c)))
          else (Inl DominionEnergyAuthError, c))"

text \<open>Lines 132 to 140, the password grant, followed by the fallback.\<close>

definition password_grant ::
  "(json \<Rightarrow> string) \<Rightarrow> session \<Rightarrow> client \<Rightarrow> (exn + bool) \<times> client" where
  "password_grant str_of session c =
     (case session (token_request c) of
        ClientError \<Rightarrow> (Inl DominionEnergyAuthError, c)
      | Response status p \<Rightarrow>
          if status = 200 then
            (case p of
               ContentTypeError \<Rightarrow> (Inl DominionEnergyAuthError, c)
             | JSONDecodeError \<Rightarrow> (Inl ValueError, c)
             | Json token_data \<Rightarrow>
                 (case py_get token_data ''access_token'' JNull of
                    Inl e \<Rightarrow> (Inl e, c)
                  | Inr t \<Rightarrow>
                      (let c' = c\<lparr>token := t\<rparr>
                       in if truthy (token c') then (Inr True, c')
                          else session_token_login str_of session c')))
          else session_token_login str_of session c)"

text \<open>
  \<^verbatim>\<open>authenticate\<close>: lines 103 to 109, the login page, then the two logins. Every
  \<^verbatim>\<open>aiohttp.ClientError\<close> is re-raised as \<open>DominionEnergyAuthError\<close> by the handler
  on line 170. Reading the text of the login page is taken to succeed; the text is not
  used.
\<close>

definition authenticate ::
  "(json \<Rightarrow> string) \<Rightarrow> session \<Rightarrow> client \<Rightarrow> (exn + bool) \<times> client" where
  "authenticate str_of session c =
     (case session login_page_request of
        ClientError \<Rightarrow> (Inl DominionEnergyAuthError, c)
      | Response status p \<Rightarrow>
          if status \<noteq> 200 then (Inl DominionEnergyAuthError, c)
          else password_grant str_of session c)"

text \<open>
  The \<^verbatim>\<open>try\<close> block of \<^verbatim>\<open>validate_credentials\<close> (\<^verbatim>\<open>authenticate\<close>, then the bill
  forecast, then \<^verbatim>\<open>return True\<close>) and the function with its two handlers.
\<close>

definition authenticate_then_forecast ::
  "(json \<Rightarrow> string) \<Rightarrow> session \<Rightarrow> client \<Rightarrow> (exn + bool) \<times> client" where
  "authenticate_then_forecast str_of session c =
     (case authenticate str_of session c of
        (Inl e, c') \<Rightarrow> (Inl e, c')
      | (Inr _, c') \<Rightarrow>
          (case get_bill_forecast session c' of
             Inl e \<Rightarrow> (Inl e, c')
           | Inr _ \<Rightarrow> (Inr True, c')))"

definition validate_credentials ::
  "(json \<Rightarrow> string) \<Rightarrow> session \<Rightarrow> client \<Rightarrow> (exn + bool) \<times> client" where
  "validate_credentials str_of session c =
     (case authenticate_then_forecast str_of session c of
        (Inl e, c') \<Rightarrow>
          if e = DominionEnergyAuthError then (Inr False, c')
          else if is_api_error e then (Inr True, c')
          else (Inl e, c')
      | (Inr r, c') \<Rightarrow> (Inr r, c'))"

section \<open>Canned sessions and payloads\<close>

text \<open>
  Concrete runs: a session that answers by URL from a table (and raises
  \<^verbatim>\<open>aiohttp.ClientError\<close> for any other URL), a client that already holds a token,
  a clock and a parser. None of the sessions sends a \<^verbatim>\<open>sessionToken\<close> that is not a
  string, so \<open>str_of0\<close> is never applied.
\<close>

text \<open>
  The float arithmetic of the runs, as a table of what the interpreter computes at the
  arguments the runs reach. All of them are binary fractions and so are the results:
  \<^verbatim>\<open>75 / 600\<close> and \<^verbatim>\<open>125 / 1000\<close> are \<^verbatim>\<open>0.125\<close>,
  \<^verbatim>\<open>0.0000152587890625 / 1\<close> (the divisor of 1 by 65536) is itself,
  \<^verbatim>\<open>60 / 1\<close> is \<^verbatim>\<open>60.0\<close> and \<^verbatim>\<open>60 / 2\<close> is \<^verbatim>\<open>30.0\<close>;
  \<^verbatim>\<open>round(0.125, 4)\<close> is \<^verbatim>\<open>0.125\<close>, \<^verbatim>\<open>round(0.0000152587890625, 4)\<close> is
  \<^verbatim>\<open>0.0\<close>, \<^verbatim>\<open>round(60.0, 2)\<close> is \<^verbatim>\<open>60.0\<close> and \<^verbatim>\<open>round(30.0, 2)\<close> is
  \<^verbatim>\<open>30.0\<close>. No run applies the tables to other arguments.
\<close>

definition fdiv0 :: "rat \<Rightarrow> rat \<Rightarrow> rat option" where
  "fdiv0 x y =
     (if (x, y) = (75, 600) then Some (1 / 8)
      else if (x, y) = (125, 1000) then Some (1 / 8)
      else if (x, y) = (1 / 65536, 1) then Some (1 / 65536)
      else if (x, y) = (60, 1) then Some 60
      else if (x, y) = (60, 2) then Some 30
      else None)"

definition fround0 :: "rat \<Rightarrow> nat \<Rightarrow> rat" where
  "fround0 x n =
     (if (x, n) = (1 / 8, 4) then 1 / 8
      else if (x, n) = (1 / 65536, 4) then 0
      else if (x, n) = (60, 2) then 60
      else if (x, n) = (30, 2) then 30
      else x)"

definition float0 :: float_arith where
  "float0 = \<lparr>fdiv = fdiv0, fround = fround0\<rparr>"

definition canned :: "(string \<times> outcome) list \<Rightarrow> session" where
  "canned table rq =
     (case map_of table (req_url rq) of Some out \<Rightarrow> out | None \<Rightarrow> ClientError)"

definition data_session :: "outcome \<Rightarrow> outcome \<Rightarrow> outcome \<Rightarrow> session" where
  "data_session forecast usage bills =
     canned [(API_BASE_URL @ BILL_FORECAST_ENDPOINT, forecast),
             (API_BASE_URL @ USAGE_HISTORY_ENDPOINT, usage),
             (API_BASE_URL @ BILL_HISTORY_ENDPOINT, bills)]"

definition client0 :: client where
  "client0 = \<lparr>username = ''user'', password = ''secret'', account_number = ''1234567890'',
              token = JStr ''Bearer old''\<rparr>"

definition str_of0 :: "json \<Rightarrow> string" where
  "str_of0 v = []"

definition envelope :: "(string \<times> json) list \<Rightarrow> json" where
  "envelope d =
     JObj [(''status'', JObj [(''code'', JNum 200), (''message'', JStr ''OK'')]),
           (''data'', JObj d)]"

definition ok_envelope :: "(string \<times> json) list \<Rightarrow> outcome" where
  "ok_envelope d = Response 200 (Json (envelope d))"

definition http_500 :: outcome where
  "http_500 = Response 500 ContentTypeError"

text \<open>The login page answers, and the token endpoint grants the access token \<open>abc\<close>.\<close>

definition session_grant :: session where
  "session_grant = canned
     [(LOGIN_URL, Response 200 ContentTypeError),
      (''https://login.dominionenergy.com/oauth2/token'',
         Response 200 (Json (JObj [(''access_token'', JStr ''abc'')])))]"

text \<open>Both login endpoints answer 200 with an empty JSON object.\<close>

definition session_no_token :: session where
  "session_no_token = canned
     [(LOGIN_URL, Response 200 ContentTypeError),
      (''https://login.dominionenergy.com/oauth2/token'', Response 200 (Json (JObj []))),
      (''https://login.dominionenergy.com/api/v1/authn'', Response 200 (Json (JObj [])))]"

text \<open>As \<open>session_grant\<close>, with a bill forecast that answers 500, and one that answers.\<close>

definition session_grant_forecast_500 :: session where
  "session_grant_forecast_500 = canned
     [(LOGIN_URL, Response 200 ContentTypeError),
      (''https://login.dominionenergy.com/oauth2/token'',
         Response 200 (Json (JObj [(''access_token'', JStr ''abc'')]))),
      (API_BASE_URL @ BILL_FORECAST_ENDPOINT, http_500)]"

definition session_grant_forecast_ok :: session where
  "session_grant_forecast_ok = canned
     [(LOGIN_URL, Response 200 ContentTypeError),
      (''https://login.dominionenergy.com/oauth2/token'',
         Response 200 (Json (JObj [(''access_token'', JStr ''abc'')]))),
      (API_BASE_URL @ BILL_FORECAST_ENDPOINT,
         ok_envelope [(''currentUsageKwh'', JNum 500), (''currentBillAmount'', JNum 75)])]"

text \<open>Every data endpoint answers 401.\<close>

definition session_401 :: session where
  "session_401 rq = Response 401 ContentTypeError"

text \<open>A forecast with \<^verbatim>\<open>gridReturnKwh: 12.5\<close> and no \<^verbatim>\<open>netMeteringExportKwh\<close>.\<close>

definition session_grid_return :: session where
  "session_grid_return =
     data_session (ok_envelope [(''gridReturnKwh'', JNum (25 / 2))]) http_500 http_500"

text \<open>A forecast of 500 kWh and a bill of 0.\<close>

definition session_zero_bill :: session where
  "session_zero_bill =
     data_session (ok_envelope [(''currentUsageKwh'', JNum 500), (''currentBillAmount'', JNum 0)])
       http_500 http_500"

text \<open>
  A forecast whose rate rounds to 0.0 (a bill of 0.0000152587890625 for 1 kWh), and a
  bill history whose latest bill is 125 for 1000 kWh.
\<close>

definition latest_bill0 :: json where
  "latest_bill0 = JObj [(''totalAmount'', JNum 125), (''totalUsageKwh'', JNum 1000)]"

definition session_tiny_bill :: session where
  "session_tiny_bill =
     data_session
       (ok_envelope [(''currentUsageKwh'', JNum 1), (''currentBillAmount'', JNum (1 / 65536))])
       http_500
       (ok_envelope [(''bills'', JArr [latest_bill0])])"

text \<open>
  A forecast of 600 kWh and a bill of 75; the usage history answers 500; the bill
  history is the one above.
\<close>

definition forecast0 :: "(string \<times> json) list" where
  "forecast0 = [(''currentUsageKwh'', JNum 600), (''currentBillAmount'', JNum 75)]"

definition session_rate :: session where
  "session_rate =
     data_session (ok_envelope forecast0) http_500 (ok_envelope [(''bills'', JArr [latest_bill0])])"

text \<open>
  The same forecast and usage history, with a bill history that answers 200 and the
  embedded status code \<^verbatim>\<open>"error"\<close>.
\<close>

definition session_bills_bad_code :: session where
  "session_bills_bad_code =
     data_session (ok_envelope forecast0) http_500
       (Response 200 (Json (JObj [(''status'', JObj [(''code'', JStr ''error'')])])))"

text \<open>
  The bill forecast answers 401; the usage history has one day and the bill history is
  the one above.
\<close>

definition daily_usage0 :: json where
  "daily_usage0 = JArr [JObj [(''date'', JStr ''2024-01-02''), (''usageKwh'', JNum 12)]]"

definition session_forecast_401 :: session where
  "session_forecast_401 =
     data_session (Response 401 ContentTypeError)
       (ok_envelope [(''dailyUsage'', daily_usage0)])
       (ok_envelope [(''bills'', JArr [latest_bill0])])"

text \<open>
  A bill of 60 in a billing period that started on 2024-01-01 at 18:00 UTC, read on
  2024-01-03 at 12:00. \<^verbatim>\<open>date(2024, 1, 1).toordinal()\<close> is 738886.
\<close>

definition start0 :: datetime where
  "start0 = \<lparr>ordinal = 738886, day_us = 64800000000, tzinfo = Some 0\<rparr>"

definition now0 :: datetime where
  "now0 = \<lparr>ordinal = 738888, day_us = 43200000000, tzinfo = None\<rparr>"

definition fromisoformat0 :: "string \<Rightarrow> datetime option" where
  "fromisoformat0 s = (if s = ''2024-01-01T18:00:00+00:00'' then Some start0 else None)"

definition session_daily_cost :: session where
  "session_daily_cost =
     data_session
       (ok_envelope [(''currentBillAmount'', JNum 60),
                     (''billingPeriodStartDate'', JStr ''2024-01-01T18:00:00Z'')])
       http_500 http_500"

text \<open>The same billing period with a bill of 0.\<close>

definition session_zero_bill_dated :: session where
  "session_zero_bill_dated =
     data_session
       (ok_envelope [(''currentBillAmount'', JNum 0),
                     (''billingPeriodStartDate'', JStr ''2024-01-01T18:00:00Z'')])
       http_500 http_500"

text \<open>A forecast that answers 200 with the embedded status code \<^verbatim>\<open>"error"\<close>.\<close>

definition bad_code_data :: json where
  "bad_code_data =
     JObj [(''status'', JObj [(''code'', JStr ''error''), (''message'', JStr ''failed'')])]"

definition session_bad_code :: session where
  "session_bad_code = data_session (Response 200 (Json bad_code_data)) http_500 http_500"

text \<open>A caller map that names \<^verbatim>\<open>accountNumber\<close> itself.\<close>

definition params0 :: "(string \<times> string) list" where
  "params0 = [(''startDate'', ''2024-01-01''), (''accountNumber'', ''999'')]"

section \<open>The spec's reading of the elapsed days\<close>

text \<open>
  The specification counts the whole days between the date portion of the billing-period
  start (time of day and zone discarded) and the current moment. This definition follows
  those words; \<open>daily_cost_of\<close> above follows the code.
\<close>

definition spec_days_elapsed :: "datetime \<Rightarrow> datetime \<Rightarrow> int" where
  "spec_days_elapsed now start = timedelta_days now (start\<lparr>day_us := 0, tzinfo := None\<rparr>)"

section \<open>Basic facts\<close>

lemma bindE_Inl [simp]: "bindE (Inl e) f = Inl e"
  by (simp add: bindE_def)

lemma bindE_Inr [simp]: "bindE (Inr x) f = f x"
  by (simp add: bindE_def)

lemma bindE_eq_Inl:
  "bindE m f = Inl e \<longleftrightarrow> m = Inl e \<or> (\<exists>x. m = Inr x \<and> f x = Inl e)"
  by (cases m) simp_all

lemma bindE_eq_Inr: "bindE m f = Inr y \<longleftrightarrow> (\<exists>x. m = Inr x \<and> f x = Inr y)"
  by (cases m) simp_all

lemma map_of_dict_update: "map_of (dict_update d p) = map_of d ++ map_of (rev p)"
proof (induction p arbitrary: d)
  case Nil
  show ?case by (simp add: dict_update_def)
next
  case (Cons kv p)
  obtain k v where kv: "kv = (k, v)" by (cases kv)
  have step: "dict_update d (kv # p) = dict_update (AList.update k v d) p"
    by (simp add: dict_update_def kv)
  have "map_of (dict_update d (kv # p)) = map_of (AList.update k v d) ++ map_of (rev p)"
    unfolding step by (rule Cons.IH)
  also have "\<dots> = (map_of d)(k \<mapsto> v) ++ map_of (rev p)"
    by (simp only: update_conv')
  also have "\<dots> = map_of d ++ map_of (rev (kv # p))"
    by (simp add: kv map_add_def fun_eq_iff split: option.splits)
  finally show ?case .
qed

lemma map_of_rev_distinct: "distinct (map fst p) \<Longrightarrow> map_of (rev p) = map_of p"
proof (induction p)
  case Nil
  show ?case by simp
next
  case (Cons kv p)
  obtain k v where kv: "kv = (k, v)" by (cases kv)
  from Cons.prems have notin: "k \<notin> fst ` set p" and d: "distinct (map fst p)"
    by (simp_all add: kv)
  from notin have none: "map_of p k = None"
    by (simp add: map_of_eq_None_iff)
  show ?case
    using none by (auto simp: kv Cons.IH [OF d] map_add_def fun_eq_iff split: option.splits)
qed

section \<open>The query of a data request\<close>

text \<open>
  C3 (as amended). The query that \<^verbatim>\<open>_api_request\<close> sends holds every key of the
  caller's map with the caller's value; \<^verbatim>\<open>accountNumber\<close> and \<^verbatim>\<open>actionCode\<close> have
  their fixed values only when the caller's map does not name them, because
  \<^verbatim>\<open>default_params.update(params)\<close> lets the caller's value replace the fixed one.
\<close>

theorem api_request_query_caller_wins:
  assumes "distinct (map fst p)"
  shows "map_of (req_params (api_request_of c endpoint (Some p))) k =
           (case map_of p k of
              Some v \<Rightarrow> Some v
            | None \<Rightarrow> map_of [(''accountNumber'', account_number c),
                               (''actionCode'', ACTION_CODE)] k)"
proof -
  have "api_request_params c (Some p) =
          dict_update [(''accountNumber'', account_number c), (''actionCode'', ACTION_CODE)] p"
    by (cases p) (simp_all add: api_request_params_def dict_update_def)
  then have "map_of (api_request_params c (Some p)) =
          map_of [(''accountNumber'', account_number c), (''actionCode'', ACTION_CODE)]
            ++ map_of p"
    using assms by (simp only: map_of_dict_update map_of_rev_distinct)
  then show ?thesis
    by (simp add: api_request_of_def map_add_def del: map_of.simps)
qed

theorem api_request_query_caller_wins_witness:
  "distinct (map fst params0) \<and>
   map_of (req_params (api_request_of client0 USAGE_HISTORY_ENDPOINT (Some params0)))
     ''accountNumber'' = Some ''999'' \<and>
   map_of (req_params (api_request_of client0 USAGE_HISTORY_ENDPOINT (Some params0)))
     ''actionCode'' = Some ''4'' \<and>
   map_of (req_params (api_request_of client0 USAGE_HISTORY_ENDPOINT (Some params0)))
     ''startDate'' = Some ''2024-01-01''"
proof -
  have d: "distinct (map fst params0)"
    by (simp add: params0_def)
  show ?thesis
    using d api_request_query_caller_wins [OF d, of client0 USAGE_HISTORY_ENDPOINT]
    by (simp add: params0_def ACTION_CODE_def)
qed

text \<open>
  C3 as the specification states it fails: a caller map with the key
  \<^verbatim>\<open>accountNumber\<close> overrides the account number of the client.
\<close>

theorem api_request_query_counterexample:
  "map_of (req_params (api_request_of client0 USAGE_HISTORY_ENDPOINT (Some params0)))
     ''accountNumber'' \<noteq> Some (account_number client0)"
  by (simp add: api_request_of_def api_request_params_def dict_update_def params0_def
      client0_def)

section \<open>The embedded status code\<close>

text \<open>
  C10. A 200 response whose embedded status object carries a non-empty string that
  \<^verbatim>\<open>int()\<close> cannot read makes \<^verbatim>\<open>_api_request\<close> raise \<open>ValueError\<close>, which is
  neither a \<open>DominionEnergyApiError\<close> nor a \<open>DominionEnergyAuthError\<close>.
\<close>

theorem api_request_status_code_value_error:
  assumes "truthy (token c)"
    and "session (api_request_of c endpoint params) = Response 200 (Json data)"
    and "py_get data ''status'' (JObj []) = Inr status"
    and "py_get status ''code'' JNull = Inr (JStr s)"
    and "s \<noteq> []"
    and "int_of_str s = None"
  shows "api_request session c endpoint params = Inl ValueError \<and> \<not> is_api_error ValueError"
  using assms by (simp add: api_request_def check_status_def)

theorem api_request_status_code_value_error_witness:
  "truthy (token client0) \<and>
   session_bad_code (api_request_of client0 BILL_FORECAST_ENDPOINT None)
     = Response 200 (Json bad_code_data) \<and>
   int_of_str ''error'' = None \<and>
   api_request session_bad_code client0 BILL_FORECAST_ENDPOINT None = Inl ValueError"
proof -
  have t: "truthy (token client0)"
    by (simp add: client0_def)
  have r: "session_bad_code (api_request_of client0 BILL_FORECAST_ENDPOINT None)
             = Response 200 (Json bad_code_data)"
    by (simp add: session_bad_code_def data_session_def canned_def api_request_of_def)
  have st: "py_get bad_code_data ''status'' (JObj [])
              = Inr (JObj [(''code'', JStr ''error''), (''message'', JStr ''failed'')])"
    by (simp add: bad_code_data_def py_get_def dget_def)
  have cd: "py_get (JObj [(''code'', JStr ''error''), (''message'', JStr ''failed'')])
              ''code'' JNull = Inr (JStr ''error'')"
    by (simp add: py_get_def dget_def)
  have ne: "''error'' \<noteq> []"
    by simp
  have i: "int_of_str ''error'' = None"
    by code_simp
  show ?thesis
    using t r i api_request_status_code_value_error
      [where session = session_bad_code and c = client0, OF t r st cd ne i]
    by simp
qed

section \<open>The password grant\<close>

text \<open>
  C1 (a defect of the code). With the login page answering 200 and the token endpoint
  answering 200 with \<^verbatim>\<open>{"access_token": "abc"}\<close>, \<^verbatim>\<open>authenticate\<close> succeeds and
  stores \<open>abc\<close>, not \<open>Bearer abc\<close>, and that is the Authorization header of the next
  request.
\<close>

theorem authenticate_stores_raw_access_token:
  "authenticate str_of0 session_grant client0 = (Inr True, client0\<lparr>token := JStr ''abc''\<rparr>) \<and>
   map_of (get_headers (snd (authenticate str_of0 session_grant client0))) ''Authorization''
     = Some (JStr ''abc'')"
  by code_simp

text \<open>
  C5 (a defect of the code). A client that holds the token \<open>Bearer old\<close> calls
  \<^verbatim>\<open>authenticate\<close>; the token endpoint answers 200 without \<^verbatim>\<open>access_token\<close>, the
  session-token endpoint answers 200 without \<^verbatim>\<open>sessionToken\<close>. The call raises
  \<open>DominionEnergyAuthError\<close> and the stored token is gone.
\<close>

theorem failed_authenticate_clears_token:
  "token client0 = JStr ''Bearer old'' \<and>
   authenticate str_of0 session_no_token client0
     = (Inl DominionEnergyAuthError, client0\<lparr>token := JNull\<rparr>)"
  by code_simp

section \<open>Grid return\<close>

text \<open>
  C4 (a defect of the code). For a forecast with \<^verbatim>\<open>gridReturnKwh: 12.5\<close> and no
  \<^verbatim>\<open>netMeteringExportKwh\<close>, \<^verbatim>\<open>get_all_data\<close> returns a grid return of 0.0.
\<close>

theorem grid_return_fallback_unreached:
  "get_all_data float0 fromisoformat0 now0 session_grid_return client0
     = Inr (new_data\<lparr>grid_return := JNum 0\<rparr>)"
  by code_simp

section \<open>What the three blocks of get_all_data can raise and change\<close>

lemma py_get_not_api: "py_get x k dflt = Inl e \<Longrightarrow> \<not> is_api_error e"
  by (auto simp: py_get_def split: json.splits)

lemma py_index0_not_api: "py_index0 x = Inl e \<Longrightarrow> \<not> is_api_error e"
  by (cases x) (auto split: list.splits)

lemma py_gt0_not_api: "py_gt0 x = Inl e \<Longrightarrow> \<not> is_api_error e"
  by (auto simp: py_gt0_def split: option.splits)

lemma py_truediv_not_api: "py_truediv fl a b = Inl e \<Longrightarrow> \<not> is_api_error e"
  by (auto simp: py_truediv_def split: option.splits if_splits)

lemma parse_billing_date_not_api:
  "parse_billing_date f v old = Inl e \<Longrightarrow> \<not> is_api_error e"
  by (auto simp: parse_billing_date_def split: json.splits if_splits)

lemma rate_of_not_api: "rate_of fl a u = Inl e \<Longrightarrow> \<not> is_api_error e"
  by (auto simp: rate_of_def bindE_eq_Inl split: if_splits
      dest: py_gt0_not_api py_truediv_not_api)

lemma daily_cost_of_not_api:
  "daily_cost_of fl now start bill = Inl e \<Longrightarrow> \<not> is_api_error e"
  by (auto simp: daily_cost_of_def bindE_eq_Inl Let_def split: option.splits if_splits
      dest: py_truediv_not_api)

lemma forecast_fields_not_api:
  assumes "forecast_fields fl f now bf d0 = Inl e"
  shows "\<not> is_api_error e"
proof (cases "py_get bf ''data'' (JObj [])")
  case (Inl e')
  with assms have "e = e'"
    by (simp add: forecast_fields_def)
  with Inl show ?thesis
    by (auto dest: py_get_not_api)
next
  case (Inr x)
  show ?thesis
  proof (cases x)
    case (JObj fd)
    with assms Inr show ?thesis
      by (auto simp: forecast_fields_def Let_def bindE_eq_Inl
          dest: parse_billing_date_not_api rate_of_not_api daily_cost_of_not_api)
  qed (use assms Inr in \<open>auto simp: forecast_fields_def\<close>)
qed

lemma usage_fields_not_api:
  assumes "usage_fields uh d = Inl e"
  shows "\<not> is_api_error e"
proof (cases "py_get uh ''data'' (JObj [])")
  case (Inl e')
  with assms have "e = e'"
    by (simp add: usage_fields_def)
  with Inl show ?thesis
    by (auto dest: py_get_not_api)
next
  case (Inr x)
  with assms show ?thesis
    by (cases x) (auto simp: usage_fields_def Let_def)
qed

lemma bill_fields_not_api: "bill_fields fl bh d = Inl e \<Longrightarrow> \<not> is_api_error e"
  by (auto simp: bill_fields_def bindE_eq_Inl split: if_splits option.splits
      dest: py_get_not_api py_index0_not_api rate_of_not_api)

lemma except_api_not_api: "(\<And>e. m = Inl e \<Longrightarrow> \<not> is_api_error e) \<Longrightarrow> except_api m d = m"
  by (cases m) (auto simp: except_api_def)

lemma except_api_never_api: "except_api m d = Inl e \<Longrightarrow> \<not> is_api_error e"
  by (cases m) (auto simp: except_api_def split: if_splits)

text \<open>Each block, by the outcome of its fetch.\<close>

lemma forecast_block_fetch_failed:
  "get_bill_forecast s c = Inl e \<Longrightarrow>
     forecast_block fl f now s c d = (if is_api_error e then Inr d else Inl e)"
  by (simp add: forecast_block_def except_api_def)

lemma forecast_block_fetched:
  "get_bill_forecast s c = Inr bf \<Longrightarrow>
     forecast_block fl f now s c d = forecast_fields fl f now bf d"
  by (simp add: forecast_block_def except_api_not_api forecast_fields_not_api)

lemma usage_block_fetch_failed:
  "get_usage_history s c None None = Inl e \<Longrightarrow>
     usage_block s c d = (if is_api_error e then Inr d else Inl e)"
  by (simp add: usage_block_def except_api_def)

lemma usage_block_fetched:
  "get_usage_history s c None None = Inr uh \<Longrightarrow> usage_block s c d = usage_fields uh d"
  by (simp add: usage_block_def except_api_not_api usage_fields_not_api)

lemma bill_block_fetch_failed:
  "get_bill_history s c = Inl e \<Longrightarrow>
     bill_block fl s c d = (if is_api_error e then Inr d else Inl e)"
  by (simp add: bill_block_def except_api_def)

lemma bill_block_fetched:
  "get_bill_history s c = Inr bh \<Longrightarrow> bill_block fl s c d = bill_fields fl bh d"
  by (simp add: bill_block_def except_api_not_api bill_fields_not_api)

lemma get_all_data_never_api:
  assumes "get_all_data fl f now s c = Inl e"
  shows "\<not> is_api_error e"
  using assms
  by (auto simp: get_all_data_def bindE_eq_Inl forecast_block_def usage_block_def
      bill_block_def dest: except_api_never_api)

text \<open>The fields a block leaves alone.\<close>

lemma usage_fields_frame:
  assumes "usage_fields uh d = Inr d'"
  shows "d' = d\<lparr>daily_usage := daily_usage d', daily_return := daily_return d'\<rparr>"
proof -
  from assms obtain x where x: "py_get uh ''data'' (JObj []) = Inr x"
    by (auto simp: usage_fields_def bindE_eq_Inr)
  with assms show ?thesis
    by (cases x) (auto simp: usage_fields_def Let_def)
qed

lemma usage_block_frame:
  assumes "usage_block s c d = Inr d'"
  shows "d' = d\<lparr>daily_usage := daily_usage d', daily_return := daily_return d'\<rparr>"
proof (cases "get_usage_history s c None None")
  case (Inl e)
  with assms have "d' = d"
    by (simp add: usage_block_fetch_failed split: if_splits)
  then show ?thesis by simp
next
  case (Inr uh)
  with assms show ?thesis
    by (simp add: usage_block_fetched usage_fields_frame)
qed

lemma rate_of_Some:
  assumes "rate_of fl a u = Inr (Some r)"
  shows "\<exists>x y q. num_of a = Some x \<and> num_of u = Some y \<and> x \<noteq> 0 \<and> 0 < y \<and>
           fdiv fl x y = Some q \<and> r = JNum (fround fl q 4)"
proof -
  from assms have t: "truthy a" and pos: "py_gt0 u = Inr True"
    and dv: "\<exists>q. py_truediv fl a u = Inr q \<and> r = JNum (fround fl q 4)"
    by (auto simp: rate_of_def bindE_eq_Inr split: if_splits)
  from pos obtain y where y: "num_of u = Some y" "0 < y"
    by (auto simp: py_gt0_def split: option.splits)
  from dv y obtain x q where x: "num_of a = Some x" "fdiv fl x y = Some q"
    "r = JNum (fround fl q 4)"
    by (auto simp: py_truediv_def split: option.splits if_splits)
  from t x(1) have "x \<noteq> 0"
    by (cases a) (auto split: if_splits)
  with x y show ?thesis by blast
qed

lemma rate_of_num:
  assumes "num_of a = Some x" and "num_of u = Some y" and "x \<noteq> 0" and "0 < y"
  shows "rate_of fl a u =
           (case fdiv fl x y of
              None \<Rightarrow> Inl OverflowError
            | Some q \<Rightarrow> Inr (Some (JNum (fround fl q 4))))"
proof -
  from assms(1,3) have ta: "truthy a"
    by (cases a) (auto split: if_splits)
  from assms(2,4) have tu: "truthy u"
    by (cases u) (auto split: if_splits)
  show ?thesis
    using assms ta tu
    by (simp add: rate_of_def py_gt0_def py_truediv_def split: option.splits)
qed

lemma bill_fields_Inr:
  assumes "bill_fields fl bh d = Inr d'"
  shows "d' = d \<or>
         (\<not> truthy (current_rate d) \<and>
          (\<exists>dd bills latest a u x y q.
             py_get bh ''data'' (JObj []) = Inr dd \<and>
             py_get dd ''bills'' (JArr []) = Inr bills \<and>
             py_index0 bills = Inr latest \<and>
             py_get latest ''totalAmount'' JNull = Inr a \<and>
             py_get latest ''totalUsageKwh'' JNull = Inr u \<and>
             num_of a = Some x \<and> num_of u = Some y \<and> x \<noteq> 0 \<and> 0 < y \<and>
             fdiv fl x y = Some q \<and>
             d' = d\<lparr>current_rate := JNum (fround fl q 4)\<rparr>))"
proof -
  from assms obtain dd bills where dd: "py_get bh ''data'' (JObj []) = Inr dd"
    and bills: "py_get dd ''bills'' (JArr []) = Inr bills"
    and rest: "(if truthy bills then
         bindE (py_index0 bills) (\<lambda>latest_bill.
           if truthy latest_bill \<and> \<not> truthy (current_rate d) then
             bindE (py_get latest_bill ''totalAmount'' JNull) (\<lambda>bill_amount.
             bindE (py_get latest_bill ''totalUsageKwh'' JNull) (\<lambda>bill_usage.
             bindE (rate_of fl bill_amount bill_usage) (\<lambda>rate.
               Inr (case rate of Some r \<Rightarrow> d\<lparr>current_rate := r\<rparr> | None \<Rightarrow> d))))
           else Inr d)
       else Inr d) = Inr d'"
    by (auto simp: bill_fields_def bindE_eq_Inr)
  show ?thesis
  proof (cases "d' = d")
    case True
    then show ?thesis by simp
  next
    case False
    with rest obtain latest a u rate where l: "py_index0 bills = Inr latest"
      and nr: "\<not> truthy (current_rate d)"
      and a: "py_get latest ''totalAmount'' JNull = Inr a"
      and u: "py_get latest ''totalUsageKwh'' JNull = Inr u"
      and r: "rate_of fl a u = Inr rate"
      and d': "d' = (case rate of Some r \<Rightarrow> d\<lparr>current_rate := r\<rparr> | None \<Rightarrow> d)"
      by (auto simp: bindE_eq_Inr split: if_splits)
    from False d' obtain rv where rv: "rate = Some rv" "d' = d\<lparr>current_rate := rv\<rparr>"
      by (cases rate) auto
    from r rv(1) obtain x y q where "num_of a = Some x" "num_of u = Some y" "x \<noteq> 0" "0 < y"
      "fdiv fl x y = Some q" "rv = JNum (fround fl q 4)"
      using rate_of_Some by blast
    with dd bills l a u nr rv(2) show ?thesis by blast
  qed
qed

lemma bill_fields_frame:
  "bill_fields fl bh d = Inr d' \<Longrightarrow> d' = d\<lparr>current_rate := current_rate d'\<rparr>"
  by (drule bill_fields_Inr) auto

lemma bill_fields_rate_kept:
  "bill_fields fl bh d = Inr d' \<Longrightarrow> truthy (current_rate d) \<Longrightarrow> d' = d"
  by (drule bill_fields_Inr) auto

lemma bill_block_frame:
  assumes "bill_block fl s c d = Inr d'"
  shows "d' = d\<lparr>current_rate := current_rate d'\<rparr>"
proof (cases "get_bill_history s c")
  case (Inl e)
  with assms have "d' = d"
    by (simp add: bill_block_fetch_failed split: if_splits)
  then show ?thesis by simp
next
  case (Inr bh)
  with assms show ?thesis
    by (simp add: bill_block_fetched bill_fields_frame)
qed

lemma bill_block_rate_kept:
  assumes "bill_block fl s c d = Inr d'" and "truthy (current_rate d)"
  shows "d' = d"
proof (cases "get_bill_history s c")
  case (Inl e)
  with assms show ?thesis
    by (simp add: bill_block_fetch_failed split: if_splits)
next
  case (Inr bh)
  with assms show ?thesis
    by (simp add: bill_block_fetched bill_fields_rate_kept)
qed

lemma forecast_fields_Inr:
  assumes "forecast_fields fl f now bf d0 = Inr d"
  shows "\<exists>rate cost.
           rate_of fl (current_bill d) (monthly_usage d) = Inr rate \<and>
           current_rate d = (case rate of Some r \<Rightarrow> r | None \<Rightarrow> current_rate d0) \<and>
           daily_cost_of fl now (billing_period_start d) (current_bill d) = Inr cost \<and>
           daily_cost d = (case cost of Some v \<Rightarrow> v | None \<Rightarrow> daily_cost d0) \<and>
           daily_usage d = daily_usage d0 \<and> daily_return d = daily_return d0 \<and>
           grid_consumption d = monthly_usage d"
proof -
  from assms obtain x where x: "py_get bf ''data'' (JObj []) = Inr x"
    by (auto simp: forecast_fields_def bindE_eq_Inr)
  from assms x obtain fd where fd: "x = JObj fd"
    by (cases x) (auto simp: forecast_fields_def)
  define U where "U = dget fd ''currentUsageKwh'' JNull"
  define B where "B = (if dget fd ''currentBillAmount'' JNull = JNull
                       then dget fd ''projectedBillAmount'' JNull
                       else dget fd ''currentBillAmount'' JNull)"
  from assms x fd obtain pstart pend rate cost where
    r: "rate_of fl B U = Inr rate" and c: "daily_cost_of fl now pstart B = Inr cost" and
    d: "d = d0\<lparr>monthly_usage := U, grid_consumption := U, current_bill := B,
                  billing_period_start := pstart, billing_period_end := pend,
                  current_rate := (case rate of Some r \<Rightarrow> r | None \<Rightarrow> current_rate d0),
                  daily_cost := (case cost of Some v \<Rightarrow> v | None \<Rightarrow> daily_cost d0),
                  grid_return := grid_return d\<rparr>"
    by (auto simp: forecast_fields_def Let_def bindE_eq_Inr U_def B_def)
  have "current_bill d = B" "monthly_usage d = U" "billing_period_start d = pstart"
    "current_rate d = (case rate of Some r \<Rightarrow> r | None \<Rightarrow> current_rate d0)"
    "daily_cost d = (case cost of Some v \<Rightarrow> v | None \<Rightarrow> daily_cost d0)"
    "daily_usage d = daily_usage d0" "daily_return d = daily_return d0"
    "grid_consumption d = U"
    by (subst d, simp)+
  with r c show ?thesis
    by auto
qed

lemma daily_cost_of_num:
  assumes "num_of bill = Some b"
  shows "daily_cost_of fl now (Some st) bill =
           (if b \<noteq> 0 \<and> 0 < timedelta_days now (st\<lparr>tzinfo := None\<rparr>)
            then (case fdiv fl b (of_int (timedelta_days now (st\<lparr>tzinfo := None\<rparr>))) of
                    None \<Rightarrow> Inl OverflowError
                  | Some q \<Rightarrow> Inr (Some (JNum (fround fl q 2))))
            else Inr None)"
proof -
  from assms have t: "truthy bill \<longleftrightarrow> b \<noteq> 0"
    by (cases bill) (auto split: if_splits)
  show ?thesis
    using assms t
    by (simp add: daily_cost_of_def py_truediv_def Let_def split: option.splits)
qed

lemma daily_cost_of_unset:
  "start = None \<or> \<not> truthy bill \<Longrightarrow> daily_cost_of fl now start bill = Inr None"
  by (auto simp: daily_cost_of_def split: option.splits)

section \<open>Errors of the sub-fetches in get_all_data\<close>

text \<open>The call when the fetch of one block raises a \<open>DominionEnergyApiError\<close>.\<close>

lemma get_all_data_forecast_failed:
  assumes "get_bill_forecast s c = Inl e" and "is_api_error e"
  shows "get_all_data fl f now s c = bindE (usage_block s c new_data) (bill_block fl s c)"
  using assms by (simp add: get_all_data_def forecast_block_fetch_failed)

lemma get_all_data_usage_failed:
  assumes "get_usage_history s c None None = Inl e" and "is_api_error e"
  shows "get_all_data fl f now s c =
           bindE (forecast_block fl f now s c new_data) (bill_block fl s c)"
  using assms by (simp add: get_all_data_def usage_block_fetch_failed)

lemma get_all_data_bills_failed:
  assumes "get_bill_history s c = Inl e" and "is_api_error e"
  shows "get_all_data fl f now s c =
           bindE (forecast_block fl f now s c new_data) (usage_block s c)"
proof -
  have "bindE (usage_block s c d) (bill_block fl s c) = usage_block s c d" for d
    using assms by (cases "usage_block s c d") (simp_all add: bill_block_fetch_failed)
  then show ?thesis
    by (simp add: get_all_data_def)
qed

lemma forecast_block_daily_unset:
  assumes "forecast_block fl f now s c new_data = Inr d"
  shows "daily_usage d = JNull \<and> daily_return d = JNull"
proof (cases "get_bill_forecast s c")
  case (Inl e)
  with assms have "d = new_data"
    by (simp add: forecast_block_fetch_failed split: if_splits)
  then show ?thesis
    by (simp add: new_data_def)
next
  case (Inr bf)
  with assms have "forecast_fields fl f now bf new_data = Inr d"
    by (simp add: forecast_block_fetched)
  from forecast_fields_Inr [OF this] show ?thesis
    by (auto simp: new_data_def)
qed

text \<open>
  C2 (as amended). A \<open>DominionEnergyAuthError\<close> raised by a sub-fetch of
  \<^verbatim>\<open>get_all_data\<close> is caught by the handler of its block, which catches
  \<open>DominionEnergyApiError\<close> and so its subclass. The reading is left as it was and
  the call goes on: its outcome is the outcome of the other two blocks, run in their
  order. When the forecast fetch raises it and the other two fetches return, the outcome
  is what the usage-history and bill-history payloads make of the empty reading.
  \<^verbatim>\<open>get_all_data\<close> never raises \<open>DominionEnergyAuthError\<close>.
\<close>

theorem get_all_data_catches_auth_error:
  "(get_bill_forecast s c = Inl DominionEnergyAuthError \<longrightarrow>
      get_all_data fl f now s c = bindE (usage_block s c new_data) (bill_block fl s c)) \<and>
   (get_usage_history s c None None = Inl DominionEnergyAuthError \<longrightarrow>
      get_all_data fl f now s c =
        bindE (forecast_block fl f now s c new_data) (bill_block fl s c)) \<and>
   (get_bill_history s c = Inl DominionEnergyAuthError \<longrightarrow>
      get_all_data fl f now s c =
        bindE (forecast_block fl f now s c new_data) (usage_block s c)) \<and>
   (get_bill_forecast s c = Inl DominionEnergyAuthError \<and>
    get_usage_history s c None None = Inr uh \<and> get_bill_history s c = Inr bh \<longrightarrow>
      get_all_data fl f now s c = bindE (usage_fields uh new_data) (bill_fields fl bh)) \<and>
   get_all_data fl f now s c \<noteq> Inl DominionEnergyAuthError"
proof -
  have a: "is_api_error DominionEnergyAuthError"
    by simp
  have never: "get_all_data fl f now s c \<noteq> Inl DominionEnergyAuthError"
    using get_all_data_never_api [of fl f now s c DominionEnergyAuthError] by auto
  have fetched: "get_all_data fl f now s c = bindE (usage_fields uh new_data) (bill_fields fl bh)"
    if "get_bill_forecast s c = Inl DominionEnergyAuthError"
      "get_usage_history s c None None = Inr uh" "get_bill_history s c = Inr bh"
  proof -
    have "bill_block fl s c = bill_fields fl bh"
      using that(3) by (simp add: fun_eq_iff bill_block_fetched)
    with that(1,2) a show ?thesis
      by (simp add: get_all_data_forecast_failed usage_block_fetched)
  qed
  from never fetched show ?thesis
    using get_all_data_forecast_failed [OF _ a] get_all_data_usage_failed [OF _ a]
      get_all_data_bills_failed [OF _ a]
    by blast
qed

theorem get_all_data_catches_auth_error_witness:
  "get_bill_forecast session_forecast_401 client0 = Inl DominionEnergyAuthError \<and>
   get_all_data float0 fromisoformat0 now0 session_forecast_401 client0 =
     Inr (new_data\<lparr>current_rate := JNum (1 / 8), daily_usage := daily_usage0\<rparr>)"
proof -
  have f: "get_bill_forecast session_forecast_401 client0 = Inl DominionEnergyAuthError"
    by code_simp
  have u: "get_usage_history session_forecast_401 client0 None None =
             Inr (envelope [(''dailyUsage'', daily_usage0)])"
    by code_simp
  have b: "get_bill_history session_forecast_401 client0 =
             Inr (envelope [(''bills'', JArr [latest_bill0])])"
    by code_simp
  have r: "bindE (usage_fields (envelope [(''dailyUsage'', daily_usage0)]) new_data)
             (bill_fields float0 (envelope [(''bills'', JArr [latest_bill0])])) =
           Inr (new_data\<lparr>current_rate := JNum (1 / 8), daily_usage := daily_usage0\<rparr>)"
    by code_simp
  have "get_all_data float0 fromisoformat0 now0 session_forecast_401 client0 =
          bindE (usage_fields (envelope [(''dailyUsage'', daily_usage0)]) new_data)
            (bill_fields float0 (envelope [(''bills'', JArr [latest_bill0])]))"
    using get_all_data_catches_auth_error
        [where s = session_forecast_401 and c = client0 and fl = float0
           and f = fromisoformat0 and now = now0] f u b
    by blast
  with f r show ?thesis
    by simp
qed

text \<open>
  C2 as the specification states it fails: with every data endpoint answering 401 the
  bill-forecast fetch raises \<open>DominionEnergyAuthError\<close>, and \<^verbatim>\<open>get_all_data\<close>
  returns an empty reading.
\<close>

theorem get_all_data_auth_error_counterexample:
  "get_bill_forecast session_401 client0 = Inl DominionEnergyAuthError \<and>
   get_all_data float0 fromisoformat0 now0 session_401 client0 = Inr new_data"
  by code_simp

text \<open>
  C7 (as amended). A \<open>DominionEnergyApiError\<close> of one endpoint is caught in its
  block, which leaves the reading as it was, and the call goes on: its outcome is the
  outcome of the other two blocks, run in their order, and it is never a
  \<open>DominionEnergyApiError\<close>. So when the usage-history fetch fails and the forecast
  and bill-history blocks complete, \<^verbatim>\<open>get_all_data\<close> returns the reading of the
  forecast block with \<^verbatim>\<open>daily_usage\<close> and \<^verbatim>\<open>daily_return\<close> unset, changed by the
  bill-history block in \<^verbatim>\<open>current_rate\<close> at most. An exception of another class that
  one of the other blocks raises still ends the call.
\<close>

theorem api_error_degrades_one_endpoint:
  assumes "is_api_error e"
  shows "(get_bill_forecast s c = Inl e \<longrightarrow>
            get_all_data fl f now s c = bindE (usage_block s c new_data) (bill_block fl s c)) \<and>
         (get_usage_history s c None None = Inl e \<longrightarrow>
            get_all_data fl f now s c =
              bindE (forecast_block fl f now s c new_data) (bill_block fl s c)) \<and>
         (get_bill_history s c = Inl e \<longrightarrow>
            get_all_data fl f now s c =
              bindE (forecast_block fl f now s c new_data) (usage_block s c)) \<and>
         (\<forall>e'. get_all_data fl f now s c = Inl e' \<longrightarrow> \<not> is_api_error e') \<and>
         (get_usage_history s c None None = Inl e \<and>
          forecast_block fl f now s c new_data = Inr d1 \<and> bill_block fl s c d1 = Inr d2 \<longrightarrow>
            get_all_data fl f now s c = Inr d2 \<and>
            daily_usage d2 = JNull \<and> daily_return d2 = JNull \<and>
            d2 = d1\<lparr>current_rate := current_rate d2\<rparr>)"
proof -
  have never: "\<forall>e'. get_all_data fl f now s c = Inl e' \<longrightarrow> \<not> is_api_error e'"
    using get_all_data_never_api by blast
  have run: "get_all_data fl f now s c = Inr d2 \<and>
            daily_usage d2 = JNull \<and> daily_return d2 = JNull \<and>
            d2 = d1\<lparr>current_rate := current_rate d2\<rparr>"
    if u: "get_usage_history s c None None = Inl e"
      and fb: "forecast_block fl f now s c new_data = Inr d1"
      and bb: "bill_block fl s c d1 = Inr d2"
  proof -
    have g: "get_all_data fl f now s c = Inr d2"
      using get_all_data_usage_failed [OF u assms] fb bb by simp
    have frame: "d2 = d1\<lparr>current_rate := current_rate d2\<rparr>"
      using bb by (rule bill_block_frame)
    have "daily_usage d2 = daily_usage d1" "daily_return d2 = daily_return d1"
      by (subst frame, simp)+
    with forecast_block_daily_unset [OF fb] g frame show ?thesis
      by simp
  qed
  from never run show ?thesis
    using get_all_data_forecast_failed [OF _ assms] get_all_data_usage_failed [OF _ assms]
      get_all_data_bills_failed [OF _ assms]
    by blast
qed

theorem api_error_degrades_one_endpoint_witness:
  "is_api_error DominionEnergyApiError \<and>
   get_usage_history session_rate client0 None None = Inl DominionEnergyApiError \<and>
   get_all_data float0 fromisoformat0 now0 session_rate client0 =
     Inr (new_data\<lparr>grid_consumption := JNum 600, grid_return := JNum 0,
                    monthly_usage := JNum 600, current_bill := JNum 75,
                    current_rate := JNum (1 / 8)\<rparr>)"
proof -
  have a: "is_api_error DominionEnergyApiError"
    by simp
  have u: "get_usage_history session_rate client0 None None = Inl DominionEnergyApiError"
    by code_simp
  have fb: "forecast_block float0 fromisoformat0 now0 session_rate client0 new_data =
          Inr (new_data\<lparr>grid_consumption := JNum 600, grid_return := JNum 0,
                    monthly_usage := JNum 600, current_bill := JNum 75,
                    current_rate := JNum (1 / 8)\<rparr>)"
    by code_simp
  have bb: "bill_block float0 session_rate client0
          (new_data\<lparr>grid_consumption := JNum 600, grid_return := JNum 0,
                    monthly_usage := JNum 600, current_bill := JNum 75,
                    current_rate := JNum (1 / 8)\<rparr>) =
          Inr (new_data\<lparr>grid_consumption := JNum 600, grid_return := JNum 0,
                    monthly_usage := JNum 600, current_bill := JNum 75,
                    current_rate := JNum (1 / 8)\<rparr>)"
    by code_simp
  have "get_all_data float0 fromisoformat0 now0 session_rate client0 =
     Inr (new_data\<lparr>grid_consumption := JNum 600, grid_return := JNum 0,
                    monthly_usage := JNum 600, current_bill := JNum 75,
                    current_rate := JNum (1 / 8)\<rparr>)"
    using api_error_degrades_one_endpoint
        [OF a, where s = session_rate and c = client0 and fl = float0
           and f = fromisoformat0 and now = now0] u fb bb
    by blast
  with a u show ?thesis
    by simp
qed

text \<open>
  C7 as the specification states it fails. The usage-history fetch fails with a
  \<open>DominionEnergyApiError\<close> (HTTP 500), the bill-forecast fetch succeeds, and the
  bill history answers 200 with the embedded status code \<^verbatim>\<open>"error"\<close>: the
  \<open>ValueError\<close> of \<^verbatim>\<open>int("error")\<close> is not caught and \<^verbatim>\<open>get_all_data\<close> does not
  return.
\<close>

theorem usage_failure_counterexample:
  "get_usage_history session_bills_bad_code client0 None None = Inl DominionEnergyApiError \<and>
   get_bill_forecast session_bills_bad_code client0 = Inr (envelope forecast0) \<and>
   get_all_data float0 fromisoformat0 now0 session_bills_bad_code client0 = Inl ValueError"
  by code_simp

section \<open>validate_credentials\<close>

text \<open>
  C8. \<^verbatim>\<open>validate_credentials\<close> returns \<open>False\<close> exactly when its \<^verbatim>\<open>try\<close> block,
  \<^verbatim>\<open>authenticate\<close> followed by the bill forecast, raises
  \<open>DominionEnergyAuthError\<close>, that is when \<^verbatim>\<open>authenticate\<close> raises it or the forecast
  does after a successful login. It returns \<open>True\<close> when the login succeeds and the
  forecast raises a plain \<open>DominionEnergyApiError\<close>, and when both succeed.
\<close>

theorem validate_credentials_contract:
  "(fst (validate_credentials str_of s c) = Inr False \<longleftrightarrow>
      fst (authenticate_then_forecast str_of s c) = Inl DominionEnergyAuthError) \<and>
   (fst (authenticate_then_forecast str_of s c) = Inl DominionEnergyAuthError \<longleftrightarrow>
      fst (authenticate str_of s c) = Inl DominionEnergyAuthError \<or>
      (fst (authenticate str_of s c) = Inr True \<and>
       get_bill_forecast s (snd (authenticate str_of s c)) = Inl DominionEnergyAuthError)) \<and>
   (fst (authenticate str_of s c) = Inr True \<and>
    get_bill_forecast s (snd (authenticate str_of s c)) = Inl DominionEnergyApiError
      \<longrightarrow> fst (validate_credentials str_of s c) = Inr True) \<and>
   (fst (authenticate str_of s c) = Inr True \<and>
    get_bill_forecast s (snd (authenticate str_of s c)) = Inr j
      \<longrightarrow> fst (validate_credentials str_of s c) = Inr True)"
proof -
  obtain r c' where a: "authenticate str_of s c = (r, c')"
    by (cases "authenticate str_of s c")
  have only_true: "r = Inr b \<Longrightarrow> b" for b
    using a
    by (auto simp: authenticate_def password_grant_def session_token_login_def Let_def
        split: outcome.splits payload.splits sum.splits if_splits)
  show ?thesis
  proof (cases r)
    case (Inl e)
    with a show ?thesis
      by (auto simp: validate_credentials_def authenticate_then_forecast_def)
  next
    case (Inr b)
    with only_true have b: "b" by simp
    show ?thesis
    proof (cases "get_bill_forecast s c'")
      case (Inl e)
      with a Inr b show ?thesis
        by (cases e) (auto simp: validate_credentials_def authenticate_then_forecast_def)
    next
      case fc: (Inr j')
      with a Inr b show ?thesis
        by (auto simp: validate_credentials_def authenticate_then_forecast_def)
    qed
  qed
qed

theorem validate_credentials_contract_witness:
  "fst (authenticate_then_forecast str_of0 session_no_token client0)
     = Inl DominionEnergyAuthError \<and>
   fst (validate_credentials str_of0 session_no_token client0) = Inr False \<and>
   fst (authenticate str_of0 session_grant_forecast_500 client0) = Inr True \<and>
   get_bill_forecast session_grant_forecast_500
     (snd (authenticate str_of0 session_grant_forecast_500 client0))
     = Inl DominionEnergyApiError \<and>
   fst (validate_credentials str_of0 session_grant_forecast_500 client0) = Inr True \<and>
   fst (authenticate str_of0 session_grant_forecast_ok client0) = Inr True \<and>
   fst (validate_credentials str_of0 session_grant_forecast_ok client0) = Inr True"
proof -
  have n: "fst (authenticate_then_forecast str_of0 session_no_token client0)
             = Inl DominionEnergyAuthError"
    by code_simp
  have a5: "fst (authenticate str_of0 session_grant_forecast_500 client0) = Inr True"
    by code_simp
  have f5: "get_bill_forecast session_grant_forecast_500
              (snd (authenticate str_of0 session_grant_forecast_500 client0))
              = Inl DominionEnergyApiError"
    by code_simp
  have ak: "fst (authenticate str_of0 session_grant_forecast_ok client0) = Inr True"
    by code_simp
  have fk: "get_bill_forecast session_grant_forecast_ok
              (snd (authenticate str_of0 session_grant_forecast_ok client0))
              = Inr (JObj [(''status'', JObj [(''code'', JNum 200), (''message'', JStr ''OK'')]),
                           (''data'', JObj [(''currentUsageKwh'', JNum 500),
                                            (''currentBillAmount'', JNum 75)])])"
    by code_simp
  have v1: "fst (validate_credentials str_of0 session_no_token client0) = Inr False"
    using validate_credentials_contract
        [where str_of = str_of0 and s = session_no_token and c = client0] n by blast
  have v2: "fst (validate_credentials str_of0 session_grant_forecast_500 client0) = Inr True"
    using validate_credentials_contract
        [where str_of = str_of0 and s = session_grant_forecast_500 and c = client0]
      a5 f5 by blast
  have v3: "fst (validate_credentials str_of0 session_grant_forecast_ok client0) = Inr True"
    using validate_credentials_contract
        [where str_of = str_of0 and s = session_grant_forecast_ok and c = client0]
      ak fk by blast
  from n a5 f5 ak v1 v2 v3 show ?thesis
    by simp
qed

section \<open>The derived rate\<close>

lemma forecast_block_Inr:
  assumes "forecast_block fl f now s c new_data = Inr d"
  shows "d = new_data \<or> (\<exists>bf. forecast_fields fl f now bf new_data = Inr d)"
proof (cases "get_bill_forecast s c")
  case (Inl e)
  with assms show ?thesis
    by (simp add: forecast_block_fetch_failed split: if_splits)
next
  case (Inr bf)
  with assms show ?thesis
    by (auto simp: forecast_block_fetched)
qed

lemma get_all_data_Inr:
  assumes "get_all_data fl f now s c = Inr d"
  shows "\<exists>da db. forecast_block fl f now s c new_data = Inr da \<and>
           usage_block s c da = Inr db \<and> bill_block fl s c db = Inr d"
  using assms by (auto simp: get_all_data_def bindE_eq_Inr)

lemma forecast_fields_rate:
  assumes "forecast_fields fl f now bf d0 = Inr d"
    and "num_of (current_bill d) = Some b" and "num_of (monthly_usage d) = Some u"
    and "b \<noteq> 0" and "0 < u"
  shows "\<exists>q. fdiv fl b u = Some q \<and> current_rate d = JNum (fround fl q 4)"
proof -
  from forecast_fields_Inr [OF assms(1)] obtain rate where
    r: "rate_of fl (current_bill d) (monthly_usage d) = Inr rate" and
    c: "current_rate d = (case rate of Some r \<Rightarrow> r | None \<Rightarrow> current_rate d0)"
    by blast
  from rate_of_num [OF assms(2-5), of fl] r obtain q where
    "fdiv fl b u = Some q" "rate = Some (JNum (fround fl q 4))"
    by (cases "fdiv fl b u") auto
  with c show ?thesis by simp
qed

lemma get_all_data_rate_changed:
  assumes g: "get_all_data fl f now s c = Inr d3"
    and fa: "forecast_block fl f now s c new_data = Inr da"
    and ne: "current_rate d3 \<noteq> current_rate da"
  shows "\<not> truthy (current_rate da) \<and>
         (\<exists>bh dd bills latest a v x y q.
            get_bill_history s c = Inr bh \<and>
            py_get bh ''data'' (JObj []) = Inr dd \<and>
            py_get dd ''bills'' (JArr []) = Inr bills \<and>
            py_index0 bills = Inr latest \<and>
            py_get latest ''totalAmount'' JNull = Inr a \<and>
            py_get latest ''totalUsageKwh'' JNull = Inr v \<and>
            num_of a = Some x \<and> num_of v = Some y \<and> x \<noteq> 0 \<and> 0 < y \<and>
            fdiv fl x y = Some q \<and>
            current_rate d3 = JNum (fround fl q 4))"
proof -
  from get_all_data_Inr [OF g] fa obtain db where
    ub: "usage_block s c da = Inr db" and bb: "bill_block fl s c db = Inr d3"
    by auto
  have rdb: "current_rate db = current_rate da"
    by (subst usage_block_frame [OF ub], simp)
  from ne rdb have nd: "d3 \<noteq> db"
    by auto
  show ?thesis
  proof (cases "get_bill_history s c")
    case (Inl e)
    with bb have "d3 = db"
      by (simp add: bill_block_fetch_failed split: if_splits)
    with nd show ?thesis
      by simp
  next
    case (Inr bh)
    with bb have "bill_fields fl bh db = Inr d3"
      by (simp add: bill_block_fetched)
    from bill_fields_Inr [OF this] nd obtain dd bills latest a v x y q where
      nt: "\<not> truthy (current_rate db)" and
      h: "py_get bh ''data'' (JObj []) = Inr dd" "py_get dd ''bills'' (JArr []) = Inr bills"
        "py_index0 bills = Inr latest" "py_get latest ''totalAmount'' JNull = Inr a"
        "py_get latest ''totalUsageKwh'' JNull = Inr v" "num_of a = Some x"
        "num_of v = Some y" "x \<noteq> 0" "0 < y" "fdiv fl x y = Some q" and
      d3: "d3 = db\<lparr>current_rate := JNum (fround fl q 4)\<rparr>"
      by blast
    have "current_rate d3 = JNum (fround fl q 4)"
      by (subst d3, simp)
    with nt rdb Inr h show ?thesis
      by auto
  qed
qed

text \<open>
  C6 (as amended). \<open>fdiv\<close> and \<open>fround\<close> are the interpreter's \<^verbatim>\<open>/\<close> and
  \<^verbatim>\<open>round\<close>. When the forecast's current bill and monthly usage are numbers, the bill
  is not zero and the usage is positive, the forecast block sets \<^verbatim>\<open>current_rate\<close> to
  \<^verbatim>\<open>round(bill / usage, 4)\<close>, and that is the rate \<^verbatim>\<open>get_all_data\<close> returns when
  it is not 0.0. The bill-history block changes the reading only when the rate it finds
  is unset or zero, and then to \<^verbatim>\<open>round(totalAmount / totalUsageKwh, 4)\<close> of the first
  bill entry, whose amount is not zero and whose usage is positive; so the rate that
  \<^verbatim>\<open>get_all_data\<close> returns differs from the rate of the forecast block only then.
\<close>

theorem current_rate_derivation:
  "(forecast_fields fl f now bf d0 = Inr d \<and>
    num_of (current_bill d) = Some b \<and> num_of (monthly_usage d) = Some u \<and>
    b \<noteq> 0 \<and> 0 < u
      \<longrightarrow> (\<exists>q. fdiv fl b u = Some q \<and> current_rate d = JNum (fround fl q 4))) \<and>
   (get_all_data fl f now s c = Inr d3 \<and>
    num_of (current_bill d3) = Some b \<and> num_of (monthly_usage d3) = Some u \<and>
    b \<noteq> 0 \<and> 0 < u
      \<longrightarrow> (\<exists>q. fdiv fl b u = Some q \<and>
               (fround fl q 4 \<noteq> 0 \<longrightarrow> current_rate d3 = JNum (fround fl q 4)))) \<and>
   (bill_fields fl bh d1 = Inr d2 \<and> d2 \<noteq> d1
      \<longrightarrow> \<not> truthy (current_rate d1) \<and>
          (\<exists>dd bills latest a v x y q.
             py_get bh ''data'' (JObj []) = Inr dd \<and>
             py_get dd ''bills'' (JArr []) = Inr bills \<and>
             py_index0 bills = Inr latest \<and>
             py_get latest ''totalAmount'' JNull = Inr a \<and>
             py_get latest ''totalUsageKwh'' JNull = Inr v \<and>
             num_of a = Some x \<and> num_of v = Some y \<and> x \<noteq> 0 \<and> 0 < y \<and>
             fdiv fl x y = Some q \<and>
             d2 = d1\<lparr>current_rate := JNum (fround fl q 4)\<rparr>)) \<and>
   (get_all_data fl f now s c = Inr d3 \<and> forecast_block fl f now s c new_data = Inr da \<and>
    current_rate d3 \<noteq> current_rate da
      \<longrightarrow> \<not> truthy (current_rate da) \<and>
          (\<exists>bh dd bills latest a v x y q.
             get_bill_history s c = Inr bh \<and>
             py_get bh ''data'' (JObj []) = Inr dd \<and>
             py_get dd ''bills'' (JArr []) = Inr bills \<and>
             py_index0 bills = Inr latest \<and>
             py_get latest ''totalAmount'' JNull = Inr a \<and>
             py_get latest ''totalUsageKwh'' JNull = Inr v \<and>
             num_of a = Some x \<and> num_of v = Some y \<and> x \<noteq> 0 \<and> 0 < y \<and>
             fdiv fl x y = Some q \<and>
             current_rate d3 = JNum (fround fl q 4)))"
proof -
  have step1: "\<exists>q. fdiv fl b u = Some q \<and> current_rate d = JNum (fround fl q 4)"
    if "forecast_fields fl f now bf d0 = Inr d" "num_of (current_bill d) = Some b"
      "num_of (monthly_usage d) = Some u" "b \<noteq> 0" "0 < u"
    using that by (rule forecast_fields_rate)
  have whole: "\<exists>q. fdiv fl b u = Some q \<and>
               (fround fl q 4 \<noteq> 0 \<longrightarrow> current_rate d3 = JNum (fround fl q 4))"
    if g: "get_all_data fl f now s c = Inr d3" and nb: "num_of (current_bill d3) = Some b"
      and nu: "num_of (monthly_usage d3) = Some u" and b0: "b \<noteq> 0" and u0: "0 < u"
  proof -
    from get_all_data_Inr [OF g] obtain da db where
      fa: "forecast_block fl f now s c new_data = Inr da" and
      ub: "usage_block s c da = Inr db" and bb: "bill_block fl s c db = Inr d3"
      by blast
    have db: "current_bill db = current_bill da"
      "monthly_usage db = monthly_usage da" "current_rate db = current_rate da"
      by (subst usage_block_frame [OF ub], simp)+
    have d3: "current_bill d3 = current_bill db" "monthly_usage d3 = monthly_usage db"
      by (subst bill_block_frame [OF bb], simp)+
    from nb d3 db have nba: "num_of (current_bill da) = Some b"
      by simp
    from nu d3 db have nua: "num_of (monthly_usage da) = Some u"
      by simp
    from nba have "da \<noteq> new_data"
      by (auto simp: new_data_def)
    with forecast_block_Inr [OF fa] obtain bf' where
      "forecast_fields fl f now bf' new_data = Inr da"
      by blast
    from forecast_fields_rate [OF this nba nua b0 u0] obtain q where
      q: "fdiv fl b u = Some q" and ra: "current_rate da = JNum (fround fl q 4)"
      by blast
    have "current_rate d3 = JNum (fround fl q 4)" if "fround fl q 4 \<noteq> 0"
    proof -
      from that ra db(3) have "truthy (current_rate db)"
        by simp
      from bill_block_rate_kept [OF bb this] ra db(3) show ?thesis
        by simp
    qed
    with q show ?thesis
      by blast
  qed
  have step3: "\<not> truthy (current_rate d1) \<and>
          (\<exists>dd bills latest a v x y q.
             py_get bh ''data'' (JObj []) = Inr dd \<and>
             py_get dd ''bills'' (JArr []) = Inr bills \<and>
             py_index0 bills = Inr latest \<and>
             py_get latest ''totalAmount'' JNull = Inr a \<and>
             py_get latest ''totalUsageKwh'' JNull = Inr v \<and>
             num_of a = Some x \<and> num_of v = Some y \<and> x \<noteq> 0 \<and> 0 < y \<and>
             fdiv fl x y = Some q \<and>
             d2 = d1\<lparr>current_rate := JNum (fround fl q 4)\<rparr>)"
    if "bill_fields fl bh d1 = Inr d2" "d2 \<noteq> d1"
    using bill_fields_Inr [OF that(1)] that(2) by blast
  from step1 have s1: "forecast_fields fl f now bf d0 = Inr d \<and>
    num_of (current_bill d) = Some b \<and> num_of (monthly_usage d) = Some u \<and>
    b \<noteq> 0 \<and> 0 < u
      \<longrightarrow> (\<exists>q. fdiv fl b u = Some q \<and> current_rate d = JNum (fround fl q 4))"
    by blast
  from whole have s2: "get_all_data fl f now s c = Inr d3 \<and>
    num_of (current_bill d3) = Some b \<and> num_of (monthly_usage d3) = Some u \<and>
    b \<noteq> 0 \<and> 0 < u
      \<longrightarrow> (\<exists>q. fdiv fl b u = Some q \<and>
               (fround fl q 4 \<noteq> 0 \<longrightarrow> current_rate d3 = JNum (fround fl q 4)))"
    by blast
  from step3 have s3: "bill_fields fl bh d1 = Inr d2 \<and> d2 \<noteq> d1
      \<longrightarrow> \<not> truthy (current_rate d1) \<and>
          (\<exists>dd bills latest a v x y q.
             py_get bh ''data'' (JObj []) = Inr dd \<and>
             py_get dd ''bills'' (JArr []) = Inr bills \<and>
             py_index0 bills = Inr latest \<and>
             py_get latest ''totalAmount'' JNull = Inr a \<and>
             py_get latest ''totalUsageKwh'' JNull = Inr v \<and>
             num_of a = Some x \<and> num_of v = Some y \<and> x \<noteq> 0 \<and> 0 < y \<and>
             fdiv fl x y = Some q \<and>
             d2 = d1\<lparr>current_rate := JNum (fround fl q 4)\<rparr>)"
    by blast
  have s4: "get_all_data fl f now s c = Inr d3 \<and>
    forecast_block fl f now s c new_data = Inr da \<and> current_rate d3 \<noteq> current_rate da
      \<longrightarrow> \<not> truthy (current_rate da) \<and>
          (\<exists>bh dd bills latest a v x y q.
             get_bill_history s c = Inr bh \<and>
             py_get bh ''data'' (JObj []) = Inr dd \<and>
             py_get dd ''bills'' (JArr []) = Inr bills \<and>
             py_index0 bills = Inr latest \<and>
             py_get latest ''totalAmount'' JNull = Inr a \<and>
             py_get latest ''totalUsageKwh'' JNull = Inr v \<and>
             num_of a = Some x \<and> num_of v = Some y \<and> x \<noteq> 0 \<and> 0 < y \<and>
             fdiv fl x y = Some q \<and>
             current_rate d3 = JNum (fround fl q 4))"
  proof (intro impI, elim conjE)
    assume "get_all_data fl f now s c = Inr d3"
      "forecast_block fl f now s c new_data = Inr da" "current_rate d3 \<noteq> current_rate da"
    then show "\<not> truthy (current_rate da) \<and>
          (\<exists>bh dd bills latest a v x y q.
             get_bill_history s c = Inr bh \<and>
             py_get bh ''data'' (JObj []) = Inr dd \<and>
             py_get dd ''bills'' (JArr []) = Inr bills \<and>
             py_index0 bills = Inr latest \<and>
             py_get latest ''totalAmount'' JNull = Inr a \<and>
             py_get latest ''totalUsageKwh'' JNull = Inr v \<and>
             num_of a = Some x \<and> num_of v = Some y \<and> x \<noteq> 0 \<and> 0 < y \<and>
             fdiv fl x y = Some q \<and>
             current_rate d3 = JNum (fround fl q 4))"
      by (rule get_all_data_rate_changed)
  qed
  show ?thesis
    by (rule conjI [OF s1 conjI [OF s2 conjI [OF s3 s4]]])
qed

theorem current_rate_derivation_witness:
  "get_all_data float0 fromisoformat0 now0 session_rate client0 =
     Inr (new_data\<lparr>grid_consumption := JNum 600, grid_return := JNum 0,
                    monthly_usage := JNum 600, current_bill := JNum 75,
                    current_rate := JNum (1 / 8)\<rparr>) \<and>
   fdiv float0 75 600 = Some (1 / 8) \<and> fround float0 (1 / 8) 4 = 1 / 8 \<and>
   current_rate (new_data\<lparr>grid_consumption := JNum 600, grid_return := JNum 0,
                    monthly_usage := JNum 600, current_bill := JNum 75,
                    current_rate := JNum (1 / 8)\<rparr>) = JNum (fround float0 (1 / 8) 4) \<and>
   bill_fields float0 (envelope [(''bills'', JArr [latest_bill0])]) new_data =
     Inr (new_data\<lparr>current_rate := JNum (1 / 8)\<rparr>) \<and>
   \<not> truthy (current_rate new_data)"
proof -
  have g: "get_all_data float0 fromisoformat0 now0 session_rate client0 =
     Inr (new_data\<lparr>grid_consumption := JNum 600, grid_return := JNum 0,
                    monthly_usage := JNum 600, current_bill := JNum 75,
                    current_rate := JNum (1 / 8)\<rparr>)"
    by code_simp
  have q: "fdiv float0 75 600 = Some (1 / 8)"
    by code_simp
  have r: "fround float0 (1 / 8) 4 = 1 / 8"
    by code_simp
  have n: "num_of (current_bill (new_data\<lparr>grid_consumption := JNum 600,
             grid_return := JNum 0, monthly_usage := JNum 600, current_bill := JNum 75,
             current_rate := JNum (1 / 8)\<rparr>)) = Some 75"
    "num_of (monthly_usage (new_data\<lparr>grid_consumption := JNum 600,
             grid_return := JNum 0, monthly_usage := JNum 600, current_bill := JNum 75,
             current_rate := JNum (1 / 8)\<rparr>)) = Some 600"
    by simp_all
  have nz: "(75::rat) \<noteq> 0" "(0::rat) < 600"
    by simp_all
  have rz: "fround float0 (1 / 8) 4 \<noteq> 0"
    by (simp add: r)
  have bf: "bill_fields float0 (envelope [(''bills'', JArr [latest_bill0])]) new_data =
     Inr (new_data\<lparr>current_rate := JNum (1 / 8)\<rparr>)"
    by code_simp
  have ne: "new_data\<lparr>current_rate := JNum (1 / 8)\<rparr> \<noteq> new_data"
    by (simp add: new_data_def)
  have c1: "current_rate (new_data\<lparr>grid_consumption := JNum 600, grid_return := JNum 0,
                    monthly_usage := JNum 600, current_bill := JNum 75,
                    current_rate := JNum (1 / 8)\<rparr>) = JNum (fround float0 (1 / 8) 4)"
  proof -
    from current_rate_derivation
      [where fl = float0 and f = fromisoformat0 and now = now0 and s = session_rate
         and c = client0 and b = 75 and u = 600
         and ?d3.0 = "new_data\<lparr>grid_consumption := JNum 600, grid_return := JNum 0,
                    monthly_usage := JNum 600, current_bill := JNum 75,
                    current_rate := JNum (1 / 8)\<rparr>"]
    have "get_all_data float0 fromisoformat0 now0 session_rate client0 =
            Inr (new_data\<lparr>grid_consumption := JNum 600, grid_return := JNum 0,
                    monthly_usage := JNum 600, current_bill := JNum 75,
                    current_rate := JNum (1 / 8)\<rparr>) \<and>
          num_of (current_bill (new_data\<lparr>grid_consumption := JNum 600,
             grid_return := JNum 0, monthly_usage := JNum 600, current_bill := JNum 75,
             current_rate := JNum (1 / 8)\<rparr>)) = Some 75 \<and>
          num_of (monthly_usage (new_data\<lparr>grid_consumption := JNum 600,
             grid_return := JNum 0, monthly_usage := JNum 600, current_bill := JNum 75,
             current_rate := JNum (1 / 8)\<rparr>)) = Some 600 \<and>
          (75::rat) \<noteq> 0 \<and> (0::rat) < 600
          \<longrightarrow> (\<exists>q. fdiv float0 75 600 = Some q \<and>
               (fround float0 q 4 \<noteq> 0 \<longrightarrow>
                  current_rate (new_data\<lparr>grid_consumption := JNum 600,
                    grid_return := JNum 0, monthly_usage := JNum 600,
                    current_bill := JNum 75, current_rate := JNum (1 / 8)\<rparr>) =
                  JNum (fround float0 q 4)))"
      by (rule conjunct1 [OF conjunct2])
    with g n nz obtain q' where q': "fdiv float0 75 600 = Some q'"
      and imp: "fround float0 q' 4 \<noteq> 0 \<longrightarrow>
                  current_rate (new_data\<lparr>grid_consumption := JNum 600,
                    grid_return := JNum 0, monthly_usage := JNum 600,
                    current_bill := JNum 75, current_rate := JNum (1 / 8)\<rparr>) =
                  JNum (fround float0 q' 4)"
      by blast
    from q q' have "q' = 1 / 8"
      by simp
    with imp rz show ?thesis
      by blast
  qed
  have c2: "\<not> truthy (current_rate new_data)"
    using current_rate_derivation
      [where fl = float0 and bh = "envelope [(''bills'', JArr [latest_bill0])]"
         and ?d1.0 = new_data] bf ne
    by blast
  from g q r c1 bf c2 show ?thesis
    by simp
qed

text \<open>
  C6 as the specification states it fails: with a forecast of 500 kWh and a bill of 0,
  both present and the usage positive, the rate stays unset, where the claim gives the
  number \<^verbatim>\<open>round(0 / 500, 4)\<close>.
\<close>

theorem current_rate_zero_bill_counterexample:
  "get_all_data float0 fromisoformat0 now0 session_zero_bill client0 =
     Inr (new_data\<lparr>grid_consumption := JNum 500, grid_return := JNum 0,
                    monthly_usage := JNum 500, current_bill := JNum 0\<rparr>) \<and>
   current_rate (new_data\<lparr>grid_consumption := JNum 500, grid_return := JNum 0,
                    monthly_usage := JNum 500, current_bill := JNum 0\<rparr>) = JNull"
  by code_simp

text \<open>
  The other way in which the code departs from the specification's sentence: the
  forecast derives the rate \<^verbatim>\<open>round(0.0000152587890625 / 1, 4)\<close>, which is 0.0, and
  the bill-history block, which tests the rate for truth, replaces it by
  \<^verbatim>\<open>round(125 / 1000, 4)\<close>.
\<close>

lemma bill_history_overrides_zero_rate:
  "fdiv float0 (1 / 65536) 1 = Some (1 / 65536) \<and> fround float0 (1 / 65536) 4 = 0 \<and>
   get_all_data float0 fromisoformat0 now0 session_tiny_bill client0 =
     Inr (new_data\<lparr>grid_consumption := JNum 1, grid_return := JNum 0,
                    monthly_usage := JNum 1, current_bill := JNum (1 / 65536),
                    current_rate := JNum (1 / 8)\<rparr>)"
  by code_simp

section \<open>The daily cost\<close>

text \<open>
  C9 (as amended). \<open>fdiv\<close> and \<open>fround\<close> are the interpreter's \<^verbatim>\<open>/\<close> and
  \<^verbatim>\<open>round\<close>. In a reading that \<^verbatim>\<open>get_all_data\<close> returns with a known
  billing-period start and a numeric current bill, \<^verbatim>\<open>daily_cost\<close> is
  \<^verbatim>\<open>round(bill / d, 2)\<close> when the bill is not zero and \<open>d > 0\<close>, where \<open>d\<close> is the
  number of whole days from the billing-period start, its zone information dropped and
  its time of day kept, to the current moment; otherwise, and when the start is unknown
  or the bill is null or zero, \<^verbatim>\<open>daily_cost\<close> stays unset.
\<close>

theorem daily_cost_derivation:
  assumes "get_all_data fl f now s c = Inr d"
  shows "(billing_period_start d = Some st \<and> num_of (current_bill d) = Some b \<longrightarrow>
            (if b \<noteq> 0 \<and> 0 < timedelta_days now (st\<lparr>tzinfo := None\<rparr>)
             then \<exists>q. fdiv fl b (of_int (timedelta_days now (st\<lparr>tzinfo := None\<rparr>))) = Some q \<and>
                      daily_cost d = JNum (fround fl q 2)
             else daily_cost d = JNull)) \<and>
         (billing_period_start d = None \<or> \<not> truthy (current_bill d) \<longrightarrow>
            daily_cost d = JNull)"
proof -
  from get_all_data_Inr [OF assms] obtain da db where
    fa: "forecast_block fl f now s c new_data = Inr da" and
    ub: "usage_block s c da = Inr db" and bb': "bill_block fl s c db = Inr d"
    by blast
  have db: "current_bill db = current_bill da"
    "billing_period_start db = billing_period_start da" "daily_cost db = daily_cost da"
    by (subst usage_block_frame [OF ub], simp)+
  have d: "current_bill d = current_bill db"
    "billing_period_start d = billing_period_start db" "daily_cost d = daily_cost db"
    by (subst bill_block_frame [OF bb'], simp)+
  have eqs: "current_bill d = current_bill da"
    "billing_period_start d = billing_period_start da" "daily_cost d = daily_cost da"
    using d db by simp_all
  have "(billing_period_start da = Some st \<and> num_of (current_bill da) = Some b \<longrightarrow>
            (if b \<noteq> 0 \<and> 0 < timedelta_days now (st\<lparr>tzinfo := None\<rparr>)
             then \<exists>q. fdiv fl b (of_int (timedelta_days now (st\<lparr>tzinfo := None\<rparr>))) = Some q \<and>
                      daily_cost da = JNum (fround fl q 2)
             else daily_cost da = JNull)) \<and>
         (billing_period_start da = None \<or> \<not> truthy (current_bill da) \<longrightarrow>
            daily_cost da = JNull)"
  proof (cases "da = new_data")
    case True
    then show ?thesis
      by (simp add: new_data_def)
  next
    case False
    with forecast_block_Inr [OF fa] obtain bf where
      "forecast_fields fl f now bf new_data = Inr da"
      by blast
    from forecast_fields_Inr [OF this] obtain cost where
      c: "daily_cost_of fl now (billing_period_start da) (current_bill da) = Inr cost" and
      dc0: "daily_cost da = (case cost of Some v \<Rightarrow> v | None \<Rightarrow> daily_cost new_data)"
      by blast
    have "daily_cost new_data = JNull"
      by (simp add: new_data_def)
    with dc0 have dc: "daily_cost da = (case cost of Some v \<Rightarrow> v | None \<Rightarrow> JNull)"
      by (cases cost) simp_all
    have one: "(if b \<noteq> 0 \<and> 0 < timedelta_days now (st\<lparr>tzinfo := None\<rparr>)
             then \<exists>q. fdiv fl b (of_int (timedelta_days now (st\<lparr>tzinfo := None\<rparr>))) = Some q \<and>
                      daily_cost da = JNum (fround fl q 2)
             else daily_cost da = JNull)"
      if "billing_period_start da = Some st" "num_of (current_bill da) = Some b"
      using c dc that daily_cost_of_num [OF that(2), of fl now st]
      by (auto split: if_splits option.splits)
    have two: "daily_cost da = JNull"
      if "billing_period_start da = None \<or> \<not> truthy (current_bill da)"
      using c dc daily_cost_of_unset [OF that, of fl now] by simp
    show ?thesis
    proof (intro conjI impI)
      assume h: "billing_period_start da = Some st \<and> num_of (current_bill da) = Some b"
      from h have h1: "billing_period_start da = Some st"
        and h2: "num_of (current_bill da) = Some b"
        by simp_all
      from one [OF h1 h2]
      show "if b \<noteq> 0 \<and> 0 < timedelta_days now (st\<lparr>tzinfo := None\<rparr>)
             then \<exists>q. fdiv fl b (of_int (timedelta_days now (st\<lparr>tzinfo := None\<rparr>))) = Some q \<and>
                      daily_cost da = JNum (fround fl q 2)
             else daily_cost da = JNull" .
    next
      assume "billing_period_start da = None \<or> \<not> truthy (current_bill da)"
      then show "daily_cost da = JNull"
        by (rule two)
    qed
  qed
  then show ?thesis
    by (simp only: eqs)
qed

theorem daily_cost_derivation_witness:
  "get_all_data float0 fromisoformat0 now0 session_daily_cost client0 =
     Inr (new_data\<lparr>grid_return := JNum 0, current_bill := JNum 60,
                    billing_period_start := Some start0, daily_cost := JNum 60\<rparr>) \<and>
   timedelta_days now0 (start0\<lparr>tzinfo := None\<rparr>) = 1 \<and>
   fdiv float0 60 1 = Some 60 \<and> fround float0 60 2 = 60 \<and>
   daily_cost (new_data\<lparr>grid_return := JNum 0, current_bill := JNum 60,
                    billing_period_start := Some start0, daily_cost := JNum 60\<rparr>) =
     JNum (fround float0 60 2)"
proof -
  have g: "get_all_data float0 fromisoformat0 now0 session_daily_cost client0 =
     Inr (new_data\<lparr>grid_return := JNum 0, current_bill := JNum 60,
                    billing_period_start := Some start0, daily_cost := JNum 60\<rparr>)"
    by code_simp
  have t: "timedelta_days now0 (start0\<lparr>tzinfo := None\<rparr>) = 1"
    by code_simp
  have q: "fdiv float0 60 1 = Some 60"
    by code_simp
  have r: "fround float0 60 2 = 60"
    by code_simp
  have h: "billing_period_start (new_data\<lparr>grid_return := JNum 0, current_bill := JNum 60,
                    billing_period_start := Some start0, daily_cost := JNum 60\<rparr>) = Some start0"
    "num_of (current_bill (new_data\<lparr>grid_return := JNum 0, current_bill := JNum 60,
                    billing_period_start := Some start0, daily_cost := JNum 60\<rparr>)) = Some 60"
    by simp_all
  have "daily_cost (new_data\<lparr>grid_return := JNum 0, current_bill := JNum 60,
                    billing_period_start := Some start0, daily_cost := JNum 60\<rparr>) =
     JNum (fround float0 60 2)"
    using daily_cost_derivation [OF g, where st = start0 and b = 60] h t q
    by simp
  with g t q r show ?thesis
    by simp
qed

text \<open>
  C9 as the specification states it fails. The billing period started on 2024-01-01 at
  18:00 and the bill of 60 is read on 2024-01-03 at 12:00: one whole day and eighteen
  hours have passed, and the code divides by 1, which gives 60.0. From the date portion
  of the start two whole days have passed, and the claim's value is
  \<^verbatim>\<open>round(60 / 2, 2)\<close>, which is 30.0.
\<close>

theorem daily_cost_time_of_day_counterexample:
  "get_all_data float0 fromisoformat0 now0 session_daily_cost client0 =
     Inr (new_data\<lparr>grid_return := JNum 0, current_bill := JNum 60,
                    billing_period_start := Some start0, daily_cost := JNum 60\<rparr>) \<and>
   spec_days_elapsed now0 start0 = 2 \<and>
   fdiv float0 60 (of_int (spec_days_elapsed now0 start0)) = Some 30 \<and>
   fround float0 30 2 = 30"
  by code_simp

text \<open>
  The other way in which the code departs from the specification's sentence: a bill of
  0 is known, but it is not truthy, and no daily cost is derived.
\<close>

lemma zero_bill_has_no_daily_cost:
  "get_all_data float0 fromisoformat0 now0 session_zero_bill_dated client0 =
     Inr (new_data\<lparr>grid_return := JNum 0, current_bill := JNum 0,
                    billing_period_start := Some start0\<rparr>)"
  by code_simp

end
